theory Spec2Isabelle
  imports Main "HOL-Library.Word"
begin

unbundle bit_operations_syntax

section \<open>The C runtime and the disk, as far as CFileSystem.cpp uses them\<close>

type_synonym byte = "8 word"

text \<open>Pointers are addresses; \<open>0\<close> is \<open>nullptr\<close>, which is also
  \<open>FILESYSTEM_INVALID_HANDLE\<close>.\<close>

type_synonym addr = nat

definition FILESYSTEM_INVALID_HANDLE :: addr where
  "FILESYSTEM_INVALID_HANDLE = 0"

text \<open>A \<open>FILE\<close> object: the bytes of the file it is open on and its position.\<close>

record stream =
  data :: "byte list"
  pos :: nat

datatype whence = SEEK_SET | SEEK_CUR | SEEK_END

text \<open>\<open>fseek\<close> takes a \<open>long\<close> offset. A target before the start of the file makes
  the call fail and leaves the position where it was; a target behind the end is allowed.
  CFileSystem.cpp never looks at the return value, so only the stream is returned.\<close>

definition fseek :: "stream \<Rightarrow> int \<Rightarrow> whence \<Rightarrow> stream" where
  "fseek s off origin =
     (let base = (case origin of SEEK_SET \<Rightarrow> 0
                               | SEEK_CUR \<Rightarrow> int (pos s)
                               | SEEK_END \<Rightarrow> int (length (data s)))
      in if base + off < 0 then s else s\<lparr>pos := nat (base + off)\<rparr>)"

definition ftell :: "stream \<Rightarrow> int" where
  "ftell s = int (pos s)"

text \<open>\<open>fread(p, 1, n, f)\<close>: the bytes delivered (their number is the return value) and
  the stream behind them.\<close>

definition fread :: "stream \<Rightarrow> nat \<Rightarrow> byte list \<times> stream" where
  "fread s n =
     (let got = take n (drop (pos s) (data s))
      in (got, s\<lparr>pos := pos s + length got\<rparr>))"

definition rewind :: "stream \<Rightarrow> stream" where
  "rewind s = s\<lparr>pos := 0\<rparr>"

text \<open>The disk: the bytes of every regular file, by path, the paths that are
  directories, and for a directory the sequence of entry paths a
  \<open>fs::recursive_directory_iterator\<close> rooted there walks through. The model never writes
  to the disk: what \<open>fwrite\<close> or \<open>fs::remove\<close> do to it is outside every property
  stated below. \<open>creatable\<close> lists the paths at which the OS lets a file be created.\<close>

record disk =
  contents :: "string \<rightharpoonup> byte list"
  directories :: "string list"
  listing :: "string \<rightharpoonup> string list"
  creatable :: "string list"
  last_write_time :: "string \<Rightarrow> int"

definition fs_exists :: "disk \<Rightarrow> string \<Rightarrow> bool" where
  "fs_exists d p = (contents d p \<noteq> None \<or> p \<in> set (directories d))"

text \<open>\<open>fs::file_size(p, error)\<close> returns \<open>static_cast<uintmax_t>(-1)\<close>, the
  largest 64-bit value, when it fails.\<close>

definition fs_file_size :: "disk \<Rightarrow> string \<Rightarrow> 64 word" where
  "fs_file_size d p =
     (case contents d p of None \<Rightarrow> 18446744073709551615 | Some bs \<Rightarrow> of_nat (length bs))"

text \<open>\<open>fopen\<close>: a mode starting with \<open>r\<close> needs the file to exist; the other modes
  create or truncate it where the disk allows a file to be created.\<close>

definition fopen :: "disk \<Rightarrow> string \<Rightarrow> string \<Rightarrow> stream option" where
  "fopen d p mode =
     (if mode \<noteq> [] \<and> hd mode = CHR ''r''
      then map_option (\<lambda>bs. \<lparr>data = bs, pos = 0\<rparr>) (contents d p)
      else if mode \<noteq> [] \<and> p \<in> set (creatable d)
      then Some \<lparr>data = (if hd mode = CHR ''a'' then (case contents d p of None \<Rightarrow> [] | Some bs \<Rightarrow> bs) else []),
                 pos = 0\<rparr>
      else None)"

text \<open>The platform decides what \<open>fs::path::make_preferred\<close> does: nothing where the
  preferred separator is the slash, and a replacement of every slash by a backslash on
  Windows.\<close>

datatype platform = Posix | Windows

definition preferred_separator :: "platform \<Rightarrow> char" where
  "preferred_separator pf = (case pf of Posix \<Rightarrow> CHR ''/'' | Windows \<Rightarrow> CHR 0x5C)"

definition make_preferred :: "platform \<Rightarrow> string \<Rightarrow> string" where
  "make_preferred pf p =
     (case pf of Posix \<Rightarrow> p
               | Windows \<Rightarrow> map (\<lambda>c. if c = CHR ''/'' then CHR 0x5C else c) p)"

definition is_separator :: "platform \<Rightarrow> char \<Rightarrow> bool" where
  "is_separator pf c = (c = CHR ''/'' \<or> (pf = Windows \<and> c = CHR 0x5C))"

text \<open>\<open>fs::path( a ) / b\<close> of the filesystem TS: the two strings with a preferred
  separator between them, unless one of them is empty or a separator is already there.\<close>

definition path_append :: "platform \<Rightarrow> string \<Rightarrow> string \<Rightarrow> string" where
  "path_append pf a b =
     (if a = [] \<or> b = [] \<or> is_separator pf (last a) \<or> is_separator pf (hd b)
      then a @ b
      else a @ [preferred_separator pf] @ b)"

section \<open>The data of CFileSystem\<close>

text \<open>The warning levels. Modelled from the spec: the enum is declared in the interface
  header, which is not part of the sources; the spec names a high-severity critical class
  and a low-severity class for routine close notifications, and \<open>Warning\<close> lets a message
  through when its level is at most the configured one.\<close>

type_synonym FileWarningLevel_t = int

definition FILESYSTEM_WARNING_CRITICAL :: FileWarningLevel_t where
  "FILESYSTEM_WARNING_CRITICAL = - 1"

definition FILESYSTEM_WARNING_REPORTUNCLOSED :: FileWarningLevel_t where
  "FILESYSTEM_WARNING_REPORTUNCLOSED = 1"

definition FILESYSTEM_WARNING_REPORTALLACCESSES :: FileWarningLevel_t where
  "FILESYSTEM_WARNING_REPORTALLACCESSES = 3"

datatype SearchPathFlag = READ_ONLY | IS_PACK_FILE

text \<open>\<open>CPackFileEntry\<close>: the window of one archive entry.\<close>

record CPackFileEntry =
  entryName :: string
  entryStart :: "64 word"
  entryLength :: "64 word"

text \<open>\<open>CSearchPath\<close>. \<open>packFile\<close> is the address of the archive's \<open>FILE\<close>, which the
  search path owns; \<open>packEntries\<close> is the keyed container of the archive's entries.\<close>

record CSearchPath =
  szPath :: string
  pszPathID :: "string option"
  flags :: "SearchPathFlag set"
  packFile :: "addr option"
  packEntries :: "string \<rightharpoonup> CPackFileEntry"

text \<open>\<open>CFileHandle\<close>. Modelled from the spec: the class is declared in CFileSystem.h,
  which is not part of the sources. A handle is either PLAIN and owns its OS stream, or an
  ARCHIVE_VIEW that refers to the archive's shared stream and carries the window
  \<open>(startOffset, length)\<close>; it is open while it has a stream. The accessors that
  CFileSystem.cpp calls are the fields below.\<close>

record CFileHandle =
  m_szFileName :: string
  m_pFile :: "addr option"
  m_uiStartOffset :: "64 word"
  m_uiLength :: "64 word"
  m_bIsPackEntry :: bool

definition IsOpen :: "CFileHandle \<Rightarrow> bool" where
  "IsOpen h = (m_pFile h \<noteq> None)"

datatype FindFileFlag = VALID | END_OF_DATA

text \<open>A compiled \<open>std::regex\<close>, for the patterns made of ordinary characters, the dot
  and the star: a sequence of atoms, each taken once or any number of times.\<close>

datatype atom = AnyChar | Lit char

datatype item = Once atom | Star atom

type_synonym regex = "item list"

text \<open>\<open>FindFileData\<close>. Modelled from the spec: the struct is declared in CFileSystem.h,
  which is not part of the sources. A cursor has the compiled pattern, the scope tag (empty
  for none), the flag pair, the position in the registry (\<open>None\<close> for the
  value-initialised iterator), the rest of the recursive walk (\<open>[]\<close> for the end
  iterator) and the name it returned last; a new cursor is VALID.\<close>

record FindFileData =
  filter :: regex
  szPathID :: string
  fflags :: "FindFileFlag set"
  currentPath :: "nat option"
  iterator :: "string list"
  szFileName :: string

type_synonym FileFindHandle_t = int

definition FILESYSTEM_INVALID_FIND_HANDLE :: FileFindHandle_t where
  "FILESYSTEM_INVALID_FIND_HANDLE = - 1"

text \<open>The state of the one \<open>CFileSystem\<close> object. \<open>m_OpenedFiles\<close> is the vector of
  owning pointers: each element is the address of a handle object together with the object
  itself, so that a handle object exists exactly as long as it is in the vector.
  \<open>m_FindFiles\<close> is the cursor table, addressed by index.
  \<open>files\<close> holds the open \<open>FILE\<close> objects by address, \<open>next_addr\<close> is the allocator,
  and \<open>sink\<close> is what the warning function has received so far.\<close>

record CFileSystem =
  m_SearchPaths :: "CSearchPath list"
  m_OpenedFiles :: "(addr \<times> CFileHandle) list"
  m_FindFiles :: "FindFileData list"
  m_WarningLevel :: FileWarningLevel_t
  files :: "addr \<rightharpoonup> stream"
  next_addr :: addr
  sink :: "string list"

definition Warning :: "CFileSystem \<Rightarrow> FileWarningLevel_t \<Rightarrow> string \<Rightarrow> CFileSystem" where
  "Warning st level msg =
     (if level \<le> m_WarningLevel st then st\<lparr>sink := sink st @ [msg]\<rparr> else st)"

section \<open>Close\<close>

text \<open>\<open>CFileHandle::Close\<close>. Modelled from the spec: the member function is defined
  outside the sources; a PLAIN handle owns its stream and closes it, an ARCHIVE_VIEW does
  not own the archive's stream and leaves it open.\<close>

definition CFileHandle_Close :: "CFileHandle \<Rightarrow> (addr \<rightharpoonup> stream) \<Rightarrow> (addr \<rightharpoonup> stream)" where
  "CFileHandle_Close h fl =
     (case m_pFile h of
        None \<Rightarrow> fl
      | Some a \<Rightarrow> if m_bIsPackEntry h then fl else fl(a := None))"

text \<open>The loop of \<open>Close\<close> that looks for the element owning \<open>pFile\<close>: the index of
  the first such element, or \<open>None\<close> for \<open>m_OpenedFiles.end()\<close>.\<close>

fun find_opened :: "(addr \<times> CFileHandle) list \<Rightarrow> addr \<Rightarrow> nat option" where
  "find_opened [] pFile = None"
| "find_opened ((a, h) # rest) pFile =
     (if a = pFile then Some 0 else map_option Suc (find_opened rest pFile))"

definition erase_at :: "'a list \<Rightarrow> nat \<Rightarrow> 'a list" where
  "erase_at xs i = take i xs @ drop (Suc i) xs"

definition Close :: "CFileSystem \<Rightarrow> addr \<Rightarrow> CFileSystem" where
  "Close st file =
     (if file = FILESYSTEM_INVALID_HANDLE then st
      else case find_opened (m_OpenedFiles st) file of
        None \<Rightarrow> st
      | Some position \<Rightarrow>
          (let pFile = snd (m_OpenedFiles st ! position);
               st1 = (if IsOpen pFile
                      then (Warning st FILESYSTEM_WARNING_REPORTALLACCESSES
                              (''CFileSystem::Close: Closing file '' @ m_szFileName pFile))
                           \<lparr>files := CFileHandle_Close pFile (files st)\<rparr>
                      else Warning st FILESYSTEM_WARNING_CRITICAL
                             ''CFileSystem::Close: Closing file that was already closed, or not opened!'')
           in st1\<lparr>m_OpenedFiles := erase_at (m_OpenedFiles st) position\<rparr>))"

section \<open>The registry of search paths\<close>

text \<open>What the build fixes and the sources do not show: the platform, the capacities
  of the two fixed-size character arrays, \<open>CSearchPath::szPath\<close> and
  \<open>FindFileData::szPathID\<close>, and the standard library, of which \<open>regex_throws\<close>
  tells the expressions that the constructor of \<open>std::regex\<close> rejects with a
  \<open>std::regex_error\<close>.\<close>

record build =
  target :: platform
  sizeof_szPath :: nat
  sizeof_szPathID :: nat
  regex_throws :: "string \<Rightarrow> bool"

text \<open>\<open>strncpy( dst, src, n ); dst[ n - 1 ] = '\0';\<close> leaves the first \<open>n - 1\<close>
  characters of \<open>src\<close> as the string in \<open>dst\<close>.\<close>

definition strncpy_terminated :: "string \<Rightarrow> nat \<Rightarrow> string" where
  "strncpy_terminated src n = take (n - 1) src"

definition tolower :: "char \<Rightarrow> char" where
  "tolower c =
     (if 65 \<le> (of_char c :: nat) \<and> (of_char c :: nat) \<le> 90
      then char_of ((of_char c :: nat) + 32) else c)"

text \<open>\<open>stricmp( a, b ) == 0\<close>.\<close>

definition stricmp_eq :: "string \<Rightarrow> string \<Rightarrow> bool" where
  "stricmp_eq a b = (map tolower a = map tolower b)"

text \<open>\<open>strstr( hay, needle ) != nullptr\<close>.\<close>

fun strstr :: "string \<Rightarrow> string \<Rightarrow> bool" where
  "strstr [] needle = (needle = [])"
| "strstr (c # cs) needle = (take (length needle) (c # cs) = needle \<or> strstr cs needle)"

text \<open>\<open>strchr( s, c ) != nullptr\<close>, for a character other than the terminator.\<close>

definition strchr :: "string \<Rightarrow> char \<Rightarrow> bool" where
  "strchr s c = (c \<in> set s)"

text \<open>The test on the scope tag that every scan over the registry makes:
  \<open>pathID && ( !searchPath->pszPathID || strcmp( pathID, searchPath->pszPathID ) != 0 )\<close>.\<close>

definition pathID_excludes :: "string option \<Rightarrow> CSearchPath \<Rightarrow> bool" where
  "pathID_excludes pathID sp =
     (case pathID of
        None \<Rightarrow> False
      | Some pid \<Rightarrow> (case pszPathID sp of None \<Rightarrow> True | Some q \<Rightarrow> pid \<noteq> q))"

text \<open>\<open>FindSearchPath\<close>: the index of the first element that matches, \<open>None\<close> for
  \<open>m_SearchPaths.end()\<close>.\<close>

definition search_path_matches :: "string \<Rightarrow> bool \<Rightarrow> string option \<Rightarrow> CSearchPath \<Rightarrow> bool" where
  "search_path_matches pszPath bCheckPathID pszPathID' sp =
     (stricmp_eq pszPath (szPath sp) \<and>
      (\<not> bCheckPathID \<or>
       (pszPathID' = None \<and> pszPathID sp = None) \<or>
       ((pszPathID' \<noteq> None \<and> pszPathID sp \<noteq> None) \<and> the pszPathID' = the (pszPathID sp))))"

fun FindSearchPath_from :: "CSearchPath list \<Rightarrow> string \<Rightarrow> bool \<Rightarrow> string option \<Rightarrow> nat option" where
  "FindSearchPath_from [] pszPath bCheckPathID pszPathID' = None"
| "FindSearchPath_from (sp # rest) pszPath bCheckPathID pszPathID' =
     (if search_path_matches pszPath bCheckPathID pszPathID' sp then Some 0
      else map_option Suc (FindSearchPath_from rest pszPath bCheckPathID pszPathID'))"

definition FindSearchPath :: "CFileSystem \<Rightarrow> string \<Rightarrow> bool \<Rightarrow> string option \<Rightarrow> nat option" where
  "FindSearchPath st pszPath bCheckPathID pszPathID' =
     FindSearchPath_from (m_SearchPaths st) pszPath bCheckPathID pszPathID'"

text \<open>\<open>AddSearchPath( pPath, pathID, bReadOnly )\<close>; a \<open>const char*\<close> argument is
  \<open>None\<close> when it is \<open>nullptr\<close>.\<close>

definition AddSearchPath ::
  "build \<Rightarrow> CFileSystem \<Rightarrow> string option \<Rightarrow> string option \<Rightarrow> bool \<Rightarrow> bool \<times> CFileSystem" where
  "AddSearchPath b st pPath pathID bReadOnly =
     (case pPath of
        None \<Rightarrow> (False, st)
      | Some p \<Rightarrow>
          if strstr p ''.bsp'' then (False, st)
          else if FindSearchPath st p True pathID \<noteq> None then (False, st)
          else
            (let path = \<lparr>szPath = strncpy_terminated (make_preferred (target b) p) (sizeof_szPath b),
                         pszPathID = pathID,
                         flags = (if bReadOnly then {READ_ONLY} else {}),
                         packFile = None,
                         packEntries = Map.empty\<rparr>
             in (True, st\<lparr>m_SearchPaths := m_SearchPaths st @ [path]\<rparr>)))"

text \<open>Destroying a \<open>CSearchPath\<close> closes the archive stream it owns.\<close>

definition destroy_search_path :: "CSearchPath \<Rightarrow> (addr \<rightharpoonup> stream) \<Rightarrow> (addr \<rightharpoonup> stream)" where
  "destroy_search_path sp fl = (case packFile sp of None \<Rightarrow> fl | Some a \<Rightarrow> fl(a := None))"

text \<open>\<open>RemoveSearchPath\<close> calls \<open>FindSearchPath( pPath )\<close> with the defaults of the
  declaration. Modelled from the spec: the declaration is in CFileSystem.h, which is not
  part of the sources; removal ignores the scope tag.\<close>

definition RemoveSearchPath :: "CFileSystem \<Rightarrow> string option \<Rightarrow> bool \<times> CFileSystem" where
  "RemoveSearchPath st pPath =
     (case pPath of
        None \<Rightarrow> (False, st)
      | Some p \<Rightarrow>
          (case FindSearchPath st p False None of
             None \<Rightarrow> (False, st)
           | Some it \<Rightarrow>
               (True, st\<lparr>m_SearchPaths := erase_at (m_SearchPaths st) it,
                         files := destroy_search_path (m_SearchPaths st ! it) (files st)\<rparr>)))"

definition RemoveAllSearchPaths :: "CFileSystem \<Rightarrow> CFileSystem" where
  "RemoveAllSearchPaths st =
     st\<lparr>m_SearchPaths := [], files := fold destroy_search_path (m_SearchPaths st) (files st)\<rparr>"

section \<open>Find cursors: FindClose\<close>

text \<open>The loop of \<open>FindClose\<close> over the table from its end. \<open>data\<close> is the cursor
  being closed, the one the loop tests in every round. A round that does not break calls
  \<open>m_FindFiles.erase( it.base() )\<close> with \<open>it\<close> still at \<open>rbegin()\<close>, that is
  \<open>erase( end() )\<close>, which has no defined behaviour: the result is \<open>None\<close> then.\<close>

definition FindClose_loop :: "FindFileData \<Rightarrow> FindFileData list \<Rightarrow> FindFileData list option" where
  "FindClose_loop data' tbl =
     (if tbl = [] then Some tbl
      else if VALID \<in> fflags data' then Some tbl
      else None)"

definition FindClose :: "CFileSystem \<Rightarrow> FileFindHandle_t \<Rightarrow> CFileSystem option" where
  "FindClose st handle =
     (if handle < 0 \<or> nat handle \<ge> length (m_FindFiles st) then Some st
      else
        (let data' = m_FindFiles st ! nat handle
         in if VALID \<notin> fflags data' then Some st
            else if nat handle = length (m_FindFiles st) - 1
            then map_option (\<lambda>tbl. st\<lparr>m_FindFiles := tbl\<rparr>) (FindClose_loop data' (m_FindFiles st))
            else Some (st\<lparr>m_FindFiles :=
                         (m_FindFiles st)[nat handle := data'\<lparr>fflags := fflags data' - {VALID}\<rparr>]\<rparr>)))"

section \<open>Pack archives\<close>

text \<open>The two pack formats. Modelled from the spec: PackFile.h is not part of the
  sources. A format fixes the size of its header and of a directory record, the ceiling on
  the number of records, and how the bytes of a header and of a record decode (little
  endian): the header to the directory's offset and length, a record to the embedded name
  and the entry's offset and length.\<close>

record PackType =
  NAME :: string
  sizeof_Header :: nat
  sizeof_Entry :: nat
  MAX_FILES :: nat
  header_fields :: "byte list \<Rightarrow> nat \<times> nat"
  entry_fields :: "byte list \<Rightarrow> string \<times> 64 word \<times> 64 word"

text \<open>\<open>entries.emplace( std::make_pair( name, entry ) )\<close>. Modelled from the spec:
  \<open>CSearchPath::Entries_t\<close> is declared in CFileSystem.h, which is not part of the
  sources; the spec has it as a keyed mapping from the normalized name to the entry, and
  \<open>OpenFromCacheForRead\<close> uses it as one (\<open>find\<close>, \<open>it->second\<close>). On such a
  container \<open>emplace\<close> inserts only when the key is absent: a key that is present
  keeps its element.\<close>

definition emplace :: "('k \<rightharpoonup> 'v) \<Rightarrow> 'k \<Rightarrow> 'v \<Rightarrow> ('k \<rightharpoonup> 'v)" where
  "emplace m k v = (case m k of None \<Rightarrow> m(k \<mapsto> v) | Some old \<Rightarrow> m)"

text \<open>The loop of \<open>ProcessPackFile\<close> over the decoded directory records.\<close>

fun insert_entries ::
  "platform \<Rightarrow> (string \<times> 64 word \<times> 64 word) list \<Rightarrow> (string \<rightharpoonup> CPackFileEntry) \<Rightarrow> (string \<rightharpoonup> CPackFileEntry)" where
  "insert_entries pf [] entries = entries"
| "insert_entries pf ((szFileName', filepos, filelen) # rest) entries =
     (let entry = \<lparr>entryName = make_preferred pf szFileName', entryStart = filepos, entryLength = filelen\<rparr>
      in insert_entries pf rest (emplace entries (entryName entry) entry))"

text \<open>The directory as an array of records of \<open>n\<close> bytes each.\<close>

fun records_of :: "nat \<Rightarrow> nat \<Rightarrow> byte list \<Rightarrow> byte list list" where
  "records_of n 0 bs = []"
| "records_of n (Suc k) bs = take n bs # records_of n k (drop n bs)"

text \<open>\<open>ProcessPackFile<PackType>\<close>: success, the state (for the warnings), the stream
  and the entries.\<close>

definition ProcessPackFile ::
  "platform \<Rightarrow> PackType \<Rightarrow> CFileSystem \<Rightarrow> string \<Rightarrow> stream \<Rightarrow> (string \<rightharpoonup> CPackFileEntry)
     \<Rightarrow> bool \<times> CFileSystem \<times> stream \<times> (string \<rightharpoonup> CPackFileEntry)" where
  "ProcessPackFile pf pt st pszFileName pFile entries =
     (let (header, f1) = fread pFile (sizeof_Header pt)
      in if length header \<noteq> sizeof_Header pt
         then (False, Warning st FILESYSTEM_WARNING_CRITICAL
                        (''ProcessPackFile('' @ NAME pt @ ''): Couldn't read pack file '' @ pszFileName @ '' header!n''),
               f1, entries)
         else
           (let (dirofs, dirlen) = header_fields pt header
            in if dirlen mod sizeof_Entry pt \<noteq> 0
               then (False, Warning st FILESYSTEM_WARNING_CRITICAL
                              (''ProcessPackFile('' @ NAME pt @ ''): Invalid directory length for '' @ pszFileName),
                     f1, entries)
               else
                 (let numFiles = dirlen div sizeof_Entry pt
                  in if numFiles > MAX_FILES pt
                     then (False, Warning st FILESYSTEM_WARNING_CRITICAL
                                    (''ProcessPackFile('' @ NAME pt @ ''): Too many files in pack file '' @ pszFileName),
                           f1, entries)
                     else
                       (let f2 = fseek f1 (int dirofs) SEEK_SET;
                            (packEntries', f3) = fread f2 (sizeof_Entry pt * numFiles)
                        in if length packEntries' div sizeof_Entry pt \<noteq> numFiles
                           then (False, Warning st FILESYSTEM_WARNING_CRITICAL
                                          (''ProcessPackFile('' @ NAME pt @ ''): Couldn't read directory entries from '' @ pszFileName),
                                 f3, entries)
                           else (True, st, f3,
                                 insert_entries pf
                                   (map (entry_fields pt) (records_of (sizeof_Entry pt) numFiles packEntries'))
                                   entries)))))"

text \<open>\<open>pack::Header_t\<close> and \<open>pack::IdentifyPackType\<close>. Modelled from the spec:
  PackFile.h is not part of the sources; the kind of a pack is read off a magic signature
  at the start of the file, and a file of neither kind is \<open>NOT_A_PACK\<close> (\<open>None\<close>).\<close>

record pack_formats =
  sizeof_pack_Header :: nat
  IdentifyPackType :: "byte list \<Rightarrow> PackType option"

text \<open>\<open>AddPackFile( fullpath, pathID )\<close>. The local \<open>CFileHandle\<close> is closed by its
  destructor on every early return, so the failing paths change nothing but the sink.\<close>

definition AddPackFile ::
  "build \<Rightarrow> pack_formats \<Rightarrow> disk \<Rightarrow> CFileSystem \<Rightarrow> string option \<Rightarrow> string option \<Rightarrow> bool \<times> CFileSystem" where
  "AddPackFile b fmts d st fullpath pathID =
     (case fullpath of
        None \<Rightarrow> (False, st)
      | Some p \<Rightarrow>
          (case fopen d p ''rb'' of
             None \<Rightarrow> (False, st)
           | Some file \<Rightarrow>
               (let (header, f1) = fread file (sizeof_pack_Header fmts)
                in if length header \<noteq> sizeof_pack_Header fmts
                   then (False, Warning st FILESYSTEM_WARNING_CRITICAL
                                  (''CFileSystem::AddPackFile: Couldn't read pack file '' @ p @ '' identifier''))
                   else
                     (case IdentifyPackType fmts header of
                        None \<Rightarrow> (False, Warning st FILESYSTEM_WARNING_CRITICAL
                                         (''CFileSystem::AddPackFile: '' @ p @ '' is not a pack file''))
                      | Some pt \<Rightarrow>
                          (let (bSuccess, st1, f2, entries) =
                                 ProcessPackFile (target b) pt st p (rewind f1) Map.empty
                           in if \<not> bSuccess then (False, st1)
                              else
                                (let path = \<lparr>szPath = strncpy_terminated (make_preferred (target b) p) (sizeof_szPath b),
                                             pszPathID = pathID,
                                             flags = {READ_ONLY, IS_PACK_FILE},
                                             packFile = Some (next_addr st1),
                                             packEntries = entries\<rparr>
                                 in (True, st1\<lparr>m_SearchPaths := m_SearchPaths st1 @ [path],
                                              files := (files st1)(next_addr st1 \<mapsto> f2),
                                              next_addr := Suc (next_addr st1)\<rparr>)))))))"

section \<open>Opening files\<close>

text \<open>The loop of \<open>Open\<close> over the registry: the search path it stops at, the path it
  opened there and the stream.\<close>

fun Open_scan ::
  "platform \<Rightarrow> disk \<Rightarrow> CSearchPath list \<Rightarrow> string \<Rightarrow> string \<Rightarrow> string option
     \<Rightarrow> (CSearchPath \<times> string \<times> stream) option" where
  "Open_scan pf d [] pFileName pOptions pathID = None"
| "Open_scan pf d (searchPath # rest) pFileName pOptions pathID =
     (if READ_ONLY \<in> flags searchPath \<and> strchr pOptions CHR ''w''
      then Open_scan pf d rest pFileName pOptions pathID
      else if pathID_excludes pathID searchPath
      then Open_scan pf d rest pFileName pOptions pathID
      else
        (let path = make_preferred pf (path_append pf (szPath searchPath) pFileName)
         in case fopen d path pOptions of
              None \<Rightarrow> Open_scan pf d rest pFileName pOptions pathID
            | Some file \<Rightarrow> Some (searchPath, path, file)))"

text \<open>\<open>Open\<close>. The constructor \<open>CFileHandle( fileSystem, name, mode )\<close> is modelled from
  the spec (CFileSystem.h is not part of the sources): it opens the OS file and the handle
  is a PLAIN one that owns the stream. The new \<open>FILE\<close> and the new handle object get the
  next two addresses.\<close>

definition Open ::
  "build \<Rightarrow> disk \<Rightarrow> CFileSystem \<Rightarrow> string option \<Rightarrow> string option \<Rightarrow> string option
     \<Rightarrow> addr \<times> CFileSystem" where
  "Open b d st pFileName pOptions pathID =
     (case (pFileName, pOptions) of
        (Some name, Some opts) \<Rightarrow>
          (case Open_scan (target b) d (m_SearchPaths st) name opts pathID of
             None \<Rightarrow> (FILESYSTEM_INVALID_HANDLE, st)
           | Some (searchPath, path, file) \<Rightarrow>
               (let fa = next_addr st;
                    ha = Suc fa;
                    h = \<lparr>m_szFileName = path, m_pFile = Some fa, m_uiStartOffset = 0,
                         m_uiLength = of_nat (length (data file)), m_bIsPackEntry = False\<rparr>
                in (ha, st\<lparr>m_OpenedFiles := m_OpenedFiles st @ [(ha, h)],
                           files := (files st)(fa \<mapsto> file),
                           next_addr := Suc ha\<rparr>)))
      | _ \<Rightarrow> (FILESYSTEM_INVALID_HANDLE, st))"

text \<open>The loop of \<open>OpenFromCacheForRead\<close>: the archive-backed search path and the entry
  it stops at.\<close>

fun OpenFromCache_scan ::
  "platform \<Rightarrow> CSearchPath list \<Rightarrow> string \<Rightarrow> string option \<Rightarrow> (CSearchPath \<times> CPackFileEntry) option" where
  "OpenFromCache_scan pf [] pFileName pathID = None"
| "OpenFromCache_scan pf (searchPath # rest) pFileName pathID =
     (if IS_PACK_FILE \<notin> flags searchPath
      then OpenFromCache_scan pf rest pFileName pathID
      else if pathID_excludes pathID searchPath
      then OpenFromCache_scan pf rest pFileName pathID
      else
        (case packEntries searchPath (make_preferred pf pFileName) of
           None \<Rightarrow> OpenFromCache_scan pf rest pFileName pathID
         | Some it \<Rightarrow> Some (searchPath, it)))"

text \<open>\<open>OpenFromCacheForRead\<close>. The constructor
  \<open>CFileHandle( fileSystem, name, pFile, startOffset, length )\<close> is modelled from the spec
  (CFileSystem.h is not part of the sources): the handle is an ARCHIVE_VIEW that refers to
  the archive's stream and carries the window; the stream itself is not touched.\<close>

definition OpenFromCacheForRead ::
  "build \<Rightarrow> CFileSystem \<Rightarrow> string option \<Rightarrow> string option \<Rightarrow> string option \<Rightarrow> addr \<times> CFileSystem" where
  "OpenFromCacheForRead b st pFileName pOptions pathID =
     (case (pFileName, pOptions) of
        (Some name, Some opts) \<Rightarrow>
          if strchr opts CHR ''w''
          then (FILESYSTEM_INVALID_HANDLE,
                Warning st FILESYSTEM_WARNING_CRITICAL
                  (''CFileSystem::OpenFromCacheForRead: Tried to open file '' @ name @ '' with write option!''))
          else
            (case OpenFromCache_scan (target b) (m_SearchPaths st) name pathID of
               None \<Rightarrow> (FILESYSTEM_INVALID_HANDLE, st)
             | Some (searchPath, it) \<Rightarrow>
                 (let ha = next_addr st;
                      h = \<lparr>m_szFileName = make_preferred (target b) name, m_pFile = packFile searchPath,
                           m_uiStartOffset = entryStart it, m_uiLength = entryLength it,
                           m_bIsPackEntry = True\<rparr>
                  in (ha, st\<lparr>m_OpenedFiles := m_OpenedFiles st @ [(ha, h)],
                             next_addr := Suc ha\<rparr>)))
      | _ \<Rightarrow> (FILESYSTEM_INVALID_HANDLE, st))"

section \<open>Seek, Tell and Read\<close>

text \<open>A \<open>FileHandle_t\<close> is the address of a handle object. Dereferencing an address that
  no element of \<open>m_OpenedFiles\<close> owns, or using a \<open>FILE\<close> that is closed, has no
  defined behaviour: the operations below return \<open>None\<close> then.\<close>

datatype FileSystemSeek_t =
  FILESYSTEM_SEEK_HEAD | FILESYSTEM_SEEK_CURRENT | FILESYSTEM_SEEK_TAIL | FILESYSTEM_SEEK_other int

text \<open>The first \<open>switch\<close> of \<open>Seek\<close>, taken for a pack entry: \<open>pos\<close> is an \<open>int\<close>, the
  offsets are cast to \<open>int\<close> and added to it.\<close>

definition Seek_adjust :: "CFileHandle \<Rightarrow> 32 word \<Rightarrow> FileSystemSeek_t \<Rightarrow> 32 word \<times> FileSystemSeek_t" where
  "Seek_adjust pFile pos' seekType =
     (if m_bIsPackEntry pFile
      then (case seekType of
              FILESYSTEM_SEEK_HEAD \<Rightarrow> (pos' + ucast (m_uiStartOffset pFile), seekType)
            | FILESYSTEM_SEEK_TAIL \<Rightarrow>
                (pos' + ucast (m_uiStartOffset pFile + m_uiLength pFile), FILESYSTEM_SEEK_HEAD)
            | _ \<Rightarrow> (pos', seekType))
      else (pos', seekType))"

text \<open>The second \<open>switch\<close>: the origin for \<open>fseek\<close>, \<open>None\<close> for the default branch.\<close>

definition Seek_origin :: "FileSystemSeek_t \<Rightarrow> whence option" where
  "Seek_origin seekType =
     (case seekType of
        FILESYSTEM_SEEK_HEAD \<Rightarrow> Some SEEK_SET
      | FILESYSTEM_SEEK_CURRENT \<Rightarrow> Some SEEK_CUR
      | FILESYSTEM_SEEK_TAIL \<Rightarrow> Some SEEK_END
      | FILESYSTEM_SEEK_other v \<Rightarrow> None)"

definition Seek :: "CFileSystem \<Rightarrow> addr \<Rightarrow> 32 word \<Rightarrow> FileSystemSeek_t \<Rightarrow> CFileSystem option" where
  "Seek st file pos' seekType =
     (if file = 0
      then Some (Warning st FILESYSTEM_WARNING_CRITICAL ''CFileSystem::Seek: Attempted to seek null file handle!'')
      else case map_of (m_OpenedFiles st) file of
        None \<Rightarrow> None
      | Some pFile \<Rightarrow>
          (case m_pFile pFile of
             None \<Rightarrow> Some (Warning st FILESYSTEM_WARNING_CRITICAL
                             ''CFileSystem::Seek: Attempted to seek handle with null file pointer!'')
           | Some fa \<Rightarrow>
               (let (pos1, seekType1) = Seek_adjust pFile pos' seekType
                in case Seek_origin seekType1 of
                     None \<Rightarrow> Some (Warning st FILESYSTEM_WARNING_CRITICAL ''CFileSystem::Seek: invalid seek type'')
                   | Some origin \<Rightarrow>
                       (case files st fa of
                          None \<Rightarrow> None
                        | Some f \<Rightarrow> Some (st\<lparr>files := (files st)(fa \<mapsto> fseek f (sint pos1) origin)\<rparr>)))))"

text \<open>\<open>Tell\<close> returns an \<open>unsigned int\<close>. For a pack entry the position, a \<open>long\<close>, is
  converted to the unsigned 64-bit type of the offset before the subtraction.\<close>

definition Tell :: "CFileSystem \<Rightarrow> addr \<Rightarrow> (32 word \<times> CFileSystem) option" where
  "Tell st file =
     (if file = 0
      then Some (0, Warning st FILESYSTEM_WARNING_CRITICAL ''CFileSystem::Tell: Attempted to tell null file handle!'')
      else case map_of (m_OpenedFiles st) file of
        None \<Rightarrow> None
      | Some pFile \<Rightarrow>
          (case m_pFile pFile of
             None \<Rightarrow> Some (0, Warning st FILESYSTEM_WARNING_CRITICAL
                                ''CFileSystem::Tell: Attempted to tell handle with null file pointer!'')
           | Some fa \<Rightarrow>
               (case files st fa of
                  None \<Rightarrow> None
                | Some f \<Rightarrow>
                    if m_bIsPackEntry pFile
                    then (let position = (word_of_int (ftell f) :: 64 word)
                          in Some (ucast (position - m_uiStartOffset pFile), st))
                    else Some (word_of_int (ftell f), st))))"

text \<open>\<open>Read\<close> returns an \<open>int\<close>; \<open>size\<close> is an \<open>int\<close> that \<open>fread\<close> takes as a
  \<open>size_t\<close> and that the comparison with the length converts to the unsigned 64-bit type.
  The result is the return value, the bytes that went into the buffer and the state.\<close>

definition Read_pack_entry :: "CFileHandle \<Rightarrow> stream \<Rightarrow> 32 word \<Rightarrow> 32 word \<times> byte list \<times> stream" where
  "Read_pack_entry pFile f size' =
     (if m_uiLength pFile = 0 then (0, [], f)
      else
        (let position = (word_of_int (ftell f) :: 64 word);
             relativePos = position - m_uiStartOffset pFile
         in if relativePos \<ge> m_uiLength pFile then (0, [], f)
            else
              (let (got, f') = fread f (unat (scast size' :: 64 word));
                   result = (of_nat (length got) :: 64 word);
                   result' = (if relativePos + scast size' \<ge> m_uiLength pFile + 1
                              then min result ((m_uiLength pFile + 1) - relativePos)
                              else result)
               in (ucast result', got, f'))))"

definition Read :: "CFileSystem \<Rightarrow> addr \<Rightarrow> 32 word \<Rightarrow> (32 word \<times> byte list \<times> CFileSystem) option" where
  "Read st file size' =
     (if file = 0
      then Some (0, [], Warning st FILESYSTEM_WARNING_CRITICAL
                          ''CFileSystem::Read: Attempted to read from null file handle!'')
      else case map_of (m_OpenedFiles st) file of
        None \<Rightarrow> None
      | Some pFile \<Rightarrow>
          (case m_pFile pFile of
             None \<Rightarrow> Some (0, [], Warning st FILESYSTEM_WARNING_CRITICAL
                                    ''CFileSystem::Read: Attempted to read from handle with null file pointer!'')
           | Some fa \<Rightarrow>
               (case files st fa of
                  None \<Rightarrow> None
                | Some f \<Rightarrow>
                    if m_bIsPackEntry pFile
                    then (let (result, got, f') = Read_pack_entry pFile f size'
                          in Some (result, got, st\<lparr>files := (files st)(fa \<mapsto> f')\<rparr>))
                    else (let (got, f') = fread f (unat (scast size' :: 64 word))
                          in Some (of_nat (length got), got, st\<lparr>files := (files st)(fa \<mapsto> f')\<rparr>)))))"

section \<open>Queries by name\<close>

text \<open>\<open>FileExists\<close>: the scan over the registry that the queries by name make.\<close>

fun FileExists_scan :: "platform \<Rightarrow> disk \<Rightarrow> CSearchPath list \<Rightarrow> string \<Rightarrow> bool" where
  "FileExists_scan pf d [] pFileName = False"
| "FileExists_scan pf d (searchPath # rest) pFileName =
     (if fs_exists d (path_append pf (szPath searchPath) pFileName) then True
      else FileExists_scan pf d rest pFileName)"

definition FileExists :: "build \<Rightarrow> disk \<Rightarrow> CFileSystem \<Rightarrow> string option \<Rightarrow> bool" where
  "FileExists b d st pFileName =
     (case pFileName of None \<Rightarrow> False
                      | Some name \<Rightarrow> FileExists_scan (target b) d (m_SearchPaths st) name)"

text \<open>\<open>GetFileTime\<close> returns a \<open>long\<close>.\<close>

fun GetFileTime_scan :: "platform \<Rightarrow> disk \<Rightarrow> CSearchPath list \<Rightarrow> string \<Rightarrow> int" where
  "GetFileTime_scan pf d [] pFileName = 0"
| "GetFileTime_scan pf d (searchPath # rest) pFileName =
     (let path = path_append pf (szPath searchPath) pFileName
      in if fs_exists d path then last_write_time d path
         else GetFileTime_scan pf d rest pFileName)"

definition GetFileTime :: "build \<Rightarrow> disk \<Rightarrow> CFileSystem \<Rightarrow> string \<Rightarrow> int" where
  "GetFileTime b d st pFileName = GetFileTime_scan (target b) d (m_SearchPaths st) pFileName"

text \<open>\<open>Size( const char* pFileName )\<close> returns an \<open>unsigned int\<close>.\<close>

definition Size_name :: "build \<Rightarrow> disk \<Rightarrow> CFileSystem \<Rightarrow> string option \<Rightarrow> 32 word" where
  "Size_name b d st pFileName =
     (case pFileName of None \<Rightarrow> 0
                      | Some name \<Rightarrow> ucast (fs_file_size d name))"

text \<open>A cursor as \<open>FindFirst\<close> puts it into the table, before the first advance.\<close>

definition new_cursor :: "regex \<Rightarrow> string \<Rightarrow> FindFileData" where
  "new_cursor r pid =
     \<lparr>filter = r, szPathID = pid, fflags = {VALID}, currentPath = None, iterator = [], szFileName = []\<rparr>"

section \<open>Find cursors: the wildcard, FindNext and FindFirst\<close>

text \<open>\<open>std::string::find( c, index )\<close>: the first position at or behind \<open>index\<close> that
  holds \<open>c\<close>, \<open>None\<close> for \<open>npos\<close>.\<close>

function find_from :: "string \<Rightarrow> char \<Rightarrow> nat \<Rightarrow> nat option" where
  "find_from s c index =
     (if index \<ge> length s then None
      else if s ! index = c then Some index
      else find_from s c (Suc index))"
  by pat_completeness auto
termination
  by (relation "measure (\<lambda>(s, c, index). length s - index)") auto

declare find_from.simps [simp del]

text \<open>The loop of \<open>FindFirst\<close> that replaces every \<open>*\<close> by \<open>.*\<close>:
  \<open>szWildCard.replace( index, 1, ".*" ); index += 2;\<close> as long as \<open>find\<close> succeeds.\<close>

function replace_stars :: "string \<Rightarrow> nat \<Rightarrow> string" where
  "replace_stars szWildCard index =
     (case find_from szWildCard CHR ''*'' index of
        None \<Rightarrow> szWildCard
      | Some i \<Rightarrow> replace_stars (take i szWildCard @ ''.*'' @ drop (Suc i) szWildCard) (i + 2))"
  by pat_completeness auto
termination
proof (relation "measure (\<lambda>(s, index). length s - index)")
  show "wf (measure (\<lambda>(s, index). length s - index))"
    by simp
next
  fix szWildCard :: string and index i :: nat
  assume found: "find_from szWildCard CHR ''*'' index = Some i"
  have "find_from s c j = Some k \<Longrightarrow> j \<le> k \<and> k < length s" for s c j k
  proof (induction s c j rule: find_from.induct)
    case (1 s c index)
    from "1.prems" show ?case
      by (subst (asm) find_from.simps) (use "1.IH" in \<open>auto split: if_splits\<close>)
  qed
  from this [OF found]
  show "((take i szWildCard @ ''.*'' @ drop (Suc i) szWildCard, i + 2), szWildCard, index)
          \<in> measure (\<lambda>(s, index). length s - index)"
    by auto
qed

declare replace_stars.simps [simp del]

text \<open>\<open>std::regex\<close> in its default ECMAScript grammar. On the expressions in which the
  dot and the star are the only syntax characters, a character stands for itself, the dot
  for any character but a line terminator, and a star repeats the atom before it; a match
  is a match of the whole name. An expression that starts with a quantifier has nothing to
  repeat and makes the constructor throw \<open>std::regex_error\<close>. For every other expression
  the library decides: the constructor throws \<open>std::regex_error\<close> (an unclosed group or
  bracket, a bad escape, a bad repeat count and so on; the \<open>catch\<close> of \<open>FindFirst\<close>
  takes them all alike), which is what the argument \<open>throws\<close> tells of the expression,
  or it accepts the expression, and then the automaton it builds is not modelled.\<close>

definition syntax_char :: "char \<Rightarrow> bool" where
  "syntax_char c = (c \<in> set ''^$+?()[]{}|'' \<or> c = CHR 0x5C)"

definition quantifier_char :: "char \<Rightarrow> bool" where
  "quantifier_char c = (c \<in> set ''*+?'')"

definition atom_of :: "char \<Rightarrow> atom" where
  "atom_of c = (if c = CHR ''.'' then AnyChar else Lit c)"

fun compile_items :: "string \<Rightarrow> regex option" where
  "compile_items [] = Some []"
| "compile_items [c] =
     (if syntax_char c \<or> c = CHR ''*'' then None else Some [Once (atom_of c)])"
| "compile_items (c # c' # rest) =
     (if syntax_char c \<or> c = CHR ''*'' then None
      else if c' = CHR ''*'' then map_option ((#) (Star (atom_of c))) (compile_items rest)
      else map_option ((#) (Once (atom_of c))) (compile_items (c' # rest)))"

datatype compiled = Compiled regex | Regex_error | Unmodelled

definition regex_compile :: "(string \<Rightarrow> bool) \<Rightarrow> string \<Rightarrow> compiled" where
  "regex_compile throws s =
     (if s \<noteq> [] \<and> quantifier_char (hd s) then Regex_error
      else case compile_items s of
             Some r \<Rightarrow> Compiled r
           | None \<Rightarrow> if throws s then Regex_error else Unmodelled)"

definition line_terminator :: "char \<Rightarrow> bool" where
  "line_terminator c = (c = CHR 0x0A \<or> c = CHR 0x0D)"

fun atom_matches :: "atom \<Rightarrow> char \<Rightarrow> bool" where
  "atom_matches AnyChar c = (\<not> line_terminator c)"
| "atom_matches (Lit a) c = (a = c)"

text \<open>\<open>std::regex_match( name, filter )\<close>.\<close>

fun regex_match :: "regex \<Rightarrow> string \<Rightarrow> bool" where
  "regex_match [] s = (s = [])"
| "regex_match (Once a # r) [] = False"
| "regex_match (Once a # r) (c # cs) = (atom_matches a c \<and> regex_match r cs)"
| "regex_match (Star a # r) [] = regex_match r []"
| "regex_match (Star a # r) (c # cs) =
     (regex_match r (c # cs) \<or> (atom_matches a c \<and> regex_match (Star a # r) cs))"

text \<open>The filter that \<open>FindFirst\<close> compiles for a wildcard, and the test that
  \<open>FindNext\<close> then applies to the name of an entry.\<close>

definition wildcard_filter :: "build \<Rightarrow> string \<Rightarrow> compiled" where
  "wildcard_filter b pWildCard =
     regex_compile (regex_throws b) (make_preferred (target b) (replace_stars pWildCard 0))"

definition wildcard_accepts :: "build \<Rightarrow> string \<Rightarrow> string \<Rightarrow> bool" where
  "wildcard_accepts b pWildCard name =
     (case wildcard_filter b pWildCard of Compiled r \<Rightarrow> regex_match r name | _ \<Rightarrow> False)"

text \<open>How a call can end: it returns, an exception leaves it (\<open>fs::filesystem_error\<close> from
  a directory iterator, which nothing catches), it is still running when the fuel is used
  up, its behaviour is undefined, or the model does not cover it.\<close>

datatype 'a outcome = Returns 'a | Throws | Running | Undefined | Not_modelled

text \<open>The loop of \<open>FindNext\<close> over the registry, from the cursor's current position: the
  first search path that the cursor's scope tag does not exclude.\<close>

fun first_in_scope :: "string \<Rightarrow> CSearchPath list \<Rightarrow> nat option" where
  "first_in_scope pid [] = None"
| "first_in_scope pid (path # rest) =
     (if pid \<noteq> [] \<and> (pszPathID path = None \<or> pid \<noteq> the (pszPathID path))
      then map_option Suc (first_in_scope pid rest)
      else Some 0)"

text \<open>The loop of \<open>FindNext\<close> over the walk: whether a name matched, the last name taken
  from the walk, and the rest of the walk.\<close>

fun walk_match :: "regex \<Rightarrow> string list \<Rightarrow> string \<Rightarrow> bool \<times> string \<times> string list" where
  "walk_match r [] name = (False, name, [])"
| "walk_match r (entry # rest) name =
     (if regex_match r entry then (True, entry, rest) else walk_match r rest entry)"

text \<open>The \<open>do \<dots> while( true )\<close> of \<open>FindNext\<close>, one round per unit of fuel.\<close>

fun FindNext_loop ::
  "nat \<Rightarrow> disk \<Rightarrow> CSearchPath list \<Rightarrow> FindFileData \<Rightarrow> (string option \<times> FindFileData) outcome" where
  "FindNext_loop 0 d sps data' = Running"
| "FindNext_loop (Suc fuel) d sps data' =
     (let start = (case currentPath data' of None \<Rightarrow> 0 | Some path \<Rightarrow> path);
          step1 =
            (if iterator data' = []
             then (case first_in_scope (szPathID data') (drop start sps) of
                     None \<Rightarrow> Returns (data'\<lparr>fflags := fflags data' \<union> {END_OF_DATA}\<rparr>)
                   | Some k \<Rightarrow>
                       (case listing d (szPath (sps ! (start + k))) of
                          None \<Rightarrow> Throws
                        | Some entries \<Rightarrow>
                            Returns (data'\<lparr>currentPath := Some (start + k), iterator := entries\<rparr>)))
             else Returns data')
      in case step1 of
           Returns data1 \<Rightarrow>
             if END_OF_DATA \<in> fflags data1 then Returns (None, data1)
             else
               (case walk_match (filter data1) (iterator data1) (szFileName data1) of
                  (True, name, rest) \<Rightarrow> Returns (Some name, data1\<lparr>szFileName := name, iterator := rest\<rparr>)
                | (False, name, rest) \<Rightarrow>
                    FindNext_loop fuel d sps (data1\<lparr>szFileName := name, iterator := rest\<rparr>))
         | Throws \<Rightarrow> Throws
         | Running \<Rightarrow> Running
         | Undefined \<Rightarrow> Undefined
         | Not_modelled \<Rightarrow> Not_modelled)"

definition FindNext ::
  "nat \<Rightarrow> disk \<Rightarrow> CFileSystem \<Rightarrow> FileFindHandle_t \<Rightarrow> (string option \<times> CFileSystem) outcome" where
  "FindNext fuel d st handle =
     (if handle < 0 \<or> nat handle \<ge> length (m_FindFiles st) then Returns (None, st)
      else
        (let data' = m_FindFiles st ! nat handle
         in if END_OF_DATA \<in> fflags data' then Returns (None, st)
            else
              (case FindNext_loop fuel d (m_SearchPaths st) data' of
                 Returns (name, data1) \<Rightarrow>
                   Returns (name, st\<lparr>m_FindFiles := (m_FindFiles st)[nat handle := data1]\<rparr>)
               | Throws \<Rightarrow> Throws
               | Running \<Rightarrow> Running
               | Undefined \<Rightarrow> Undefined
               | Not_modelled \<Rightarrow> Not_modelled)))"

text \<open>\<open>FindFirst( pWildCard, pHandle, pathID )\<close>. \<open>pHandle\<close> is \<open>None\<close> for a null
  pointer and otherwise holds the value of the variable it points to; the result has the
  returned name (\<open>None\<close> for \<open>nullptr\<close>), the variable's value afterwards, and the
  state.\<close>

definition FindFirst ::
  "build \<Rightarrow> nat \<Rightarrow> disk \<Rightarrow> CFileSystem \<Rightarrow> string option \<Rightarrow> FileFindHandle_t option \<Rightarrow> string option
     \<Rightarrow> (string option \<times> FileFindHandle_t option \<times> CFileSystem) outcome" where
  "FindFirst b fuel d st pWildCard pHandle pathID =
     (case (pWildCard, pHandle) of
        (Some wildCard, Some h0) \<Rightarrow>
          (case wildcard_filter b wildCard of
             Regex_error \<Rightarrow>
               Returns (None, Some FILESYSTEM_INVALID_FIND_HANDLE,
                        Warning st FILESYSTEM_WARNING_CRITICAL ''CFileSystem::FindFirst: Invalid wildcard'')
           | Unmodelled \<Rightarrow> Not_modelled
           | Compiled r \<Rightarrow>
               (let data' = new_cursor r
                              (case pathID of None \<Rightarrow> []
                                            | Some pid \<Rightarrow> strncpy_terminated pid (sizeof_szPathID b));
                    st1 = st\<lparr>m_FindFiles := m_FindFiles st @ [data']\<rparr>;
                    handle = int (length (m_FindFiles st1)) - 1
                in case FindNext fuel d st1 handle of
                     Returns (Some pszFileName, st2) \<Rightarrow> Returns (Some pszFileName, Some handle, st2)
                   | Returns (None, st2) \<Rightarrow>
                       (case FindClose st2 handle of
                          None \<Rightarrow> Undefined
                        | Some st3 \<Rightarrow> Returns (None, Some FILESYSTEM_INVALID_FIND_HANDLE, st3))
                   | Throws \<Rightarrow> Throws
                   | Running \<Rightarrow> Running
                   | Undefined \<Rightarrow> Undefined
                   | Not_modelled \<Rightarrow> Not_modelled))
      | _ \<Rightarrow> Returns (None, pHandle, st))"

text \<open>What one character of a wildcard becomes in the regular expression, and the item
  of the compiled expression that stands for it.\<close>

definition star_to_regex :: "char \<Rightarrow> string" where
  "star_to_regex c = (if c = CHR ''*'' then ''.*'' else [c])"

definition item_of :: "char \<Rightarrow> item" where
  "item_of c = (if c = CHR ''*'' then Star AnyChar else Once (atom_of c))"

text \<open>The wildcard as the amended reading has it, for comparison with \<open>wildcard_accepts\<close>:
  a star stands for any sequence of characters other than line terminators, a dot for one
  such character, every other character for itself.\<close>

fun wildcard_spec :: "string \<Rightarrow> string \<Rightarrow> bool" where
  "wildcard_spec [] name = (name = [])"
| "wildcard_spec (c # p) name =
     (if c = CHR ''*''
      then list_ex (\<lambda>k. list_all (\<lambda>x. \<not> line_terminator x) (take k name) \<and> wildcard_spec p (drop k name))
             [0 ..< Suc (length name)]
      else if c = CHR ''.''
      then (case name of [] \<Rightarrow> False | x # xs \<Rightarrow> \<not> line_terminator x \<and> wildcard_spec p xs)
      else (case name of [] \<Rightarrow> False | x # xs \<Rightarrow> x = c \<and> wildcard_spec p xs))"

text \<open>The wildcard as the claim words it: a star stands for any sequence of characters,
  every other character for itself.\<close>

fun wildcard_literal :: "string \<Rightarrow> string \<Rightarrow> bool" where
  "wildcard_literal [] name = (name = [])"
| "wildcard_literal (c # p) name =
     (if c = CHR ''*''
      then list_ex (\<lambda>k. wildcard_literal p (drop k name)) [0 ..< Suc (length name)]
      else (case name of [] \<Rightarrow> False | x # xs \<Rightarrow> x = c \<and> wildcard_literal p xs))"

section \<open>Sequences of mount operations\<close>

text \<open>The state of a \<open>CFileSystem\<close> after construction, at a given warning level.\<close>

definition new_filesystem :: "FileWarningLevel_t \<Rightarrow> CFileSystem" where
  "new_filesystem level =
     \<lparr>m_SearchPaths = [], m_OpenedFiles = [], m_FindFiles = [], m_WarningLevel = level,
      files = Map.empty, next_addr = 1, sink = []\<rparr>"

datatype mount_op =
  AddDirectory "string option" "string option" bool
| AddArchive "string option" "string option"
| Remove "string option"
| RemoveAll

fun mount_step :: "build \<Rightarrow> pack_formats \<Rightarrow> disk \<Rightarrow> CFileSystem \<Rightarrow> mount_op \<Rightarrow> CFileSystem" where
  "mount_step b fmts d st (AddDirectory pPath pathID bReadOnly) = snd (AddSearchPath b st pPath pathID bReadOnly)"
| "mount_step b fmts d st (AddArchive fullpath pathID) = snd (AddPackFile b fmts d st fullpath pathID)"
| "mount_step b fmts d st (Remove pPath) = snd (RemoveSearchPath st pPath)"
| "mount_step b fmts d st RemoveAll = RemoveAllSearchPaths st"

definition mounts :: "build \<Rightarrow> pack_formats \<Rightarrow> disk \<Rightarrow> CFileSystem \<Rightarrow> mount_op list \<Rightarrow> CFileSystem" where
  "mounts b fmts d st ops = foldl (mount_step b fmts d) st ops"

section \<open>A concrete build, pack format and disk\<close>

text \<open>An expression with an opening parenthesis and no closing one, no bracket and no
  backslash has a group that is never closed: every \<open>std::regex\<close> rejects it.\<close>

definition unclosed_group :: "string \<Rightarrow> bool" where
  "unclosed_group s =
     (CHR ''('' \<in> set s \<and> CHR '')'' \<notin> set s \<and> CHR ''['' \<notin> set s \<and> CHR 0x5C \<notin> set s)"

text \<open>The closed theorems below run the functions on these. The build is a POSIX one with
  260-byte arrays; of the expressions that its library rejects, those with an unclosed
  group are told. The pack format is the classic layout of the 32-bit kind: a 12-byte
  header (the signature \<open>PACK\<close>, then offset and length of the directory) and 64-byte
  records (a 56-byte name, then offset and length of the entry), all integers little
  endian.\<close>

definition example_build :: build where
  "example_build =
     \<lparr>target = Posix, sizeof_szPath = 260, sizeof_szPathID = 260, regex_throws = unclosed_group\<rparr>"

definition le32 :: "byte list \<Rightarrow> nat" where
  "le32 bs = foldr (\<lambda>b n. unat b + 256 * n) (take 4 bs) 0"

definition c_string :: "byte list \<Rightarrow> string" where
  "c_string bs = map (\<lambda>b. char_of (unat b)) (takeWhile (\<lambda>b. b \<noteq> 0) bs)"

definition example_Pack32 :: PackType where
  "example_Pack32 =
     \<lparr>NAME = ''PACK'', sizeof_Header = 12, sizeof_Entry = 64, MAX_FILES = 4096,
      header_fields = (\<lambda>h. (le32 (drop 4 h), le32 (drop 8 h))),
      entry_fields = (\<lambda>e. (c_string (take 56 e), of_nat (le32 (drop 56 e)), of_nat (le32 (drop 60 e))))\<rparr>"

definition bytes_of :: "string \<Rightarrow> byte list" where
  "bytes_of s = map (\<lambda>c. of_nat (of_char c)) s"

definition example_formats :: pack_formats where
  "example_formats =
     \<lparr>sizeof_pack_Header = 4,
      IdentifyPackType = (\<lambda>h. if h = bytes_of ''PACK'' then Some example_Pack32 else None)\<rparr>"

text \<open>An archive of 256 bytes: the header, one directory record for \<open>sound/a.wav\<close> with
  length 64 and the offset given by the four bytes \<open>ofs\<close>, padding up to offset 128, 64
  bytes that are each 1, and 64 bytes that are each 2.\<close>

definition example_record :: "byte list \<Rightarrow> byte list" where
  "example_record ofs = bytes_of ''sound/a.wav'' @ replicate 45 0 @ ofs @ [64, 0, 0, 0]"

definition example_archive :: "byte list \<Rightarrow> byte list" where
  "example_archive ofs =
     bytes_of ''PACK'' @ [12, 0, 0, 0] @ [64, 0, 0, 0]
     @ example_record ofs
     @ replicate 52 0
     @ replicate 64 1
     @ replicate 64 2"

text \<open>In \<open>example_pak\<close> the entry is at offset 128: its bytes are the 64 ones, and the twos
  are whatever follows it in the archive. In \<open>far_pak\<close> the record gives the offset
  \<open>0x80000000\<close>; nothing in \<open>ProcessPackFile\<close> compares a record with the size of the
  archive.\<close>

definition example_pak :: "byte list" where
  "example_pak = example_archive [128, 0, 0, 0]"

definition far_pak :: "byte list" where
  "far_pak = example_archive [0, 0, 0, 128]"

text \<open>A disk with the two archives, a directory \<open>/base\<close> that holds \<open>a.txt\<close> (3 bytes),
  and a directory \<open>/save\<close> in which files can be created.\<close>

definition example_disk :: disk where
  "example_disk =
     \<lparr>contents = [''/pak0.pak'' \<mapsto> example_pak, ''/far.pak'' \<mapsto> far_pak,
                  ''/base/a.txt'' \<mapsto> [104, 105, 10]],
      directories = [''/base'', ''/save''],
      listing = [''/base'' \<mapsto> [''/base/a.txt''], ''/save'' \<mapsto> []],
      creatable = [''/base/out.txt'', ''/save/out.txt'', ''/pak0.pak/out.txt''],
      last_write_time = (\<lambda>p. 0)\<rparr>"

text \<open>A registry in the state the mount operations leave it in: an archive never lacks
  the read-only flag.\<close>

definition archives_read_only :: "CSearchPath list \<Rightarrow> bool" where
  "archives_read_only sps = (\<forall>sp \<in> set sps. IS_PACK_FILE \<in> flags sp \<longrightarrow> READ_ONLY \<in> flags sp)"

text \<open>The filesystem after mounting \<open>/base\<close> read-only, the archive, and \<open>/save\<close>
  writable, in this order.\<close>

definition example_mounted :: CFileSystem where
  "example_mounted =
     mounts example_build example_formats example_disk (new_filesystem 0)
       [AddDirectory (Some ''/base'') None True,
        AddArchive (Some ''/pak0.pak'') None,
        AddDirectory (Some ''/save'') None False]"

text \<open>The three search paths of that filesystem.\<close>

definition base_sp :: CSearchPath where
  "base_sp = \<lparr>szPath = ''/base'', pszPathID = None, flags = {READ_ONLY}, packFile = None,
              packEntries = Map.empty\<rparr>"

definition pak_sp :: CSearchPath where
  "pak_sp = \<lparr>szPath = ''/pak0.pak'', pszPathID = None, flags = {READ_ONLY, IS_PACK_FILE},
             packFile = Some 1,
             packEntries = [''sound/a.wav'' \<mapsto>
                              \<lparr>entryName = ''sound/a.wav'', entryStart = 128, entryLength = 64\<rparr>]\<rparr>"

definition save_sp :: CSearchPath where
  "save_sp = \<lparr>szPath = ''/save'', pszPathID = None, flags = {}, packFile = None,
              packEntries = Map.empty\<rparr>"

text \<open>The same filesystem after \<open>OpenFromCacheForRead\<close> of \<open>sound/a.wav\<close>: the handle
  object is at address 2 and refers to the archive's stream at address 1.\<close>

definition example_view :: CFileHandle where
  "example_view = \<lparr>m_szFileName = ''sound/a.wav'', m_pFile = Some 1, m_uiStartOffset = 128,
                    m_uiLength = 64, m_bIsPackEntry = True\<rparr>"

definition example_viewing :: CFileSystem where
  "example_viewing = example_mounted\<lparr>m_OpenedFiles := [(2, example_view)], next_addr := 3\<rparr>"

text \<open>And after \<open>Open\<close> of \<open>a.txt\<close> for reading instead: the stream is at address 2, the
  handle object at address 3.\<close>

definition example_plain :: CFileHandle where
  "example_plain = \<lparr>m_szFileName = ''/base/a.txt'', m_pFile = Some 2, m_uiStartOffset = 0,
                     m_uiLength = 3, m_bIsPackEntry = False\<rparr>"

definition example_reading :: CFileSystem where
  "example_reading =
     example_mounted\<lparr>m_OpenedFiles := [(3, example_plain)],
                     files := (files example_mounted)(2 \<mapsto> \<lparr>data = [104, 105, 10], pos = 0\<rparr>),
                     next_addr := 4\<rparr>"

text \<open>A filesystem with only the archive whose record gives the offset \<open>0x80000000\<close>,
  its search path, and the state after \<open>OpenFromCacheForRead\<close> of its entry.\<close>

definition far_mounted :: CFileSystem where
  "far_mounted =
     mounts example_build example_formats example_disk (new_filesystem 0)
       [AddArchive (Some ''/far.pak'') None]"

definition far_sp :: CSearchPath where
  "far_sp = \<lparr>szPath = ''/far.pak'', pszPathID = None, flags = {READ_ONLY, IS_PACK_FILE},
             packFile = Some 1,
             packEntries = [''sound/a.wav'' \<mapsto>
                              \<lparr>entryName = ''sound/a.wav'', entryStart = 2147483648, entryLength = 64\<rparr>]\<rparr>"

definition far_view :: CFileHandle where
  "far_view = \<lparr>m_szFileName = ''sound/a.wav'', m_pFile = Some 1, m_uiStartOffset = 2147483648,
                m_uiLength = 64, m_bIsPackEntry = True\<rparr>"

definition far_viewing :: CFileSystem where
  "far_viewing = far_mounted\<lparr>m_OpenedFiles := [(2, far_view)], next_addr := 3\<rparr>"

section \<open>Properties\<close>

subsection \<open>The concrete filesystem, evaluated\<close>

lemma len_rec: "length ofs = 4 \<Longrightarrow> length (example_record ofs) = 64"
  by (simp add: example_record_def bytes_of_def)

lemma len_archive: "length ofs = 4 \<Longrightarrow> length (example_archive ofs) = 256"
  by (simp add: example_archive_def bytes_of_def len_rec)

lemma take_archive4: "take 4 (example_archive ofs) = bytes_of ''PACK''"
  by (simp add: example_archive_def bytes_of_def)

lemma take_archive12:
  "take 12 (example_archive ofs) = bytes_of ''PACK'' @ [12, 0, 0, 0] @ [64, 0, 0, 0]"
  by (simp add: example_archive_def bytes_of_def)

lemma hdr_fields: "header_fields example_Pack32 (take 12 (example_archive ofs)) = (12, 64)"
  by (simp add: example_Pack32_def take_archive12 bytes_of_def le32_def)

lemma dir_archive: "length ofs = 4 \<Longrightarrow> take 64 (drop 12 (example_archive ofs)) = example_record ofs"
  by (simp add: example_archive_def bytes_of_def len_rec)

lemma ent_fields:
  "length ofs = 4 \<Longrightarrow>
   entry_fields example_Pack32 (example_record ofs) = (''sound/a.wav'', of_nat (le32 ofs), 64)"
  by (simp add: example_Pack32_def example_record_def c_string_def bytes_of_def le32_def char_of_def bit_0)

lemma sizes: "sizeof_Header example_Pack32 = 12" "sizeof_Entry example_Pack32 = 64" "MAX_FILES example_Pack32 = 4096"
  "NAME example_Pack32 = ''PACK''"
  by (simp_all add: example_Pack32_def)

lemma example_ProcessPackFile:
  assumes ofs: "length ofs = 4"
  shows "ProcessPackFile Posix example_Pack32 st nm \<lparr>data = example_archive ofs, pos = 0\<rparr> Map.empty =
     (True, st, \<lparr>data = example_archive ofs, pos = 76\<rparr>,
      [''sound/a.wav'' \<mapsto> \<lparr>entryName = ''sound/a.wav'', entryStart = of_nat (le32 ofs), entryLength = 64\<rparr>])"
proof -
  let ?a = "example_archive ofs"
  have r1: "fread \<lparr>data = ?a, pos = 0\<rparr> 12 = (take 12 ?a, \<lparr>data = ?a, pos = 12\<rparr>)"
    by (simp add: fread_def len_archive ofs)
  have r2: "fseek \<lparr>data = ?a, pos = 12\<rparr> 12 SEEK_SET = \<lparr>data = ?a, pos = 12\<rparr>"
    by (simp add: fseek_def)
  have r3: "fread \<lparr>data = ?a, pos = 12\<rparr> 64 = (take 64 (drop 12 ?a), \<lparr>data = ?a, pos = 76\<rparr>)"
    by (simp add: fread_def len_archive ofs)
  have r4: "records_of 64 1 (take 64 (drop 12 ?a)) = [take 64 (drop 12 ?a)]"
    by (simp add: len_archive ofs)
  have r5: "length (take 12 ?a) = 12"
    by (simp_all add: len_archive ofs)
  show ?thesis
    unfolding ProcessPackFile_def sizes r1 Let_def prod.case r5 hdr_fields
    by (simp add: r2 r3 r4 dir_archive len_rec ent_fields emplace_def make_preferred_def ofs)
qed

lemma example_AddPackFile:
  assumes ofs: "length ofs = 4" and p: "contents example_disk p = Some (example_archive ofs)"
      and len: "length p < 260"
  shows "AddPackFile example_build example_formats example_disk st (Some p) pathID =
     (True, st\<lparr>m_SearchPaths := m_SearchPaths st @
                  [\<lparr>szPath = p, pszPathID = pathID, flags = {READ_ONLY, IS_PACK_FILE},
                    packFile = Some (next_addr st),
                    packEntries = [''sound/a.wav'' \<mapsto>
                       \<lparr>entryName = ''sound/a.wav'', entryStart = of_nat (le32 ofs), entryLength = 64\<rparr>]\<rparr>],
               files := (files st)(next_addr st \<mapsto> \<lparr>data = example_archive ofs, pos = 76\<rparr>),
               next_addr := Suc (next_addr st)\<rparr>)"
proof -
  let ?a = "example_archive ofs"
  have r0: "fopen example_disk p ''rb'' = Some \<lparr>data = ?a, pos = 0\<rparr>"
    by (simp add: fopen_def p)
  have r1: "fread \<lparr>data = ?a, pos = 0\<rparr> 4 = (bytes_of ''PACK'', \<lparr>data = ?a, pos = 4\<rparr>)"
    by (simp add: fread_def len_archive take_archive4 ofs) (simp add: bytes_of_def)
  have r2: "sizeof_pack_Header example_formats = 4"
    "IdentifyPackType example_formats (bytes_of ''PACK'') = Some example_Pack32"
    by (simp_all add: example_formats_def)
  have r3: "length (bytes_of ''PACK'') = 4" by (simp add: bytes_of_def)
  have r4: "target example_build = Posix" "sizeof_szPath example_build = 260"
    by (simp_all add: example_build_def)
  show ?thesis
    unfolding AddPackFile_def option.case r0 r2 r1 prod.case Let_def r3 r4 rewind_def
    using len by (simp add: example_ProcessPackFile ofs strncpy_terminated_def make_preferred_def)
qed

lemma example_pak_on_disk:
  "contents example_disk ''/pak0.pak'' = Some (example_archive [128, 0, 0, 0])"
  "contents example_disk ''/far.pak'' = Some (example_archive [0, 0, 0, 128])"
  by (simp_all add: example_disk_def example_pak_def far_pak_def)

lemma le32_offsets: "le32 [128, 0, 0, 0] = 128" "le32 [0, 0, 0, 128] = 2147483648"
  by (simp_all add: le32_def)

lemma example_AddSearchPath:
  "\<not> strstr p ''.bsp'' \<Longrightarrow> FindSearchPath st p True pathID = None \<Longrightarrow> length p < 260 \<Longrightarrow>
   AddSearchPath example_build st (Some p) pathID ro =
     (True, st\<lparr>m_SearchPaths := m_SearchPaths st @
                 [\<lparr>szPath = p, pszPathID = pathID, flags = (if ro then {READ_ONLY} else {}),
                   packFile = None, packEntries = Map.empty\<rparr>]\<rparr>)"
  by (simp add: AddSearchPath_def example_build_def make_preferred_def strncpy_terminated_def)

lemma stricmp_neq: "\<not> stricmp_eq ''/save'' ''/base''" "\<not> stricmp_eq ''/save'' ''/pak0.pak''"
  by (simp_all add: stricmp_eq_def tolower_def char_of_def bit_0)

lemma example_mounted_eq:
  "example_mounted =
     \<lparr>m_SearchPaths = [base_sp, pak_sp, save_sp], m_OpenedFiles = [], m_FindFiles = [], m_WarningLevel = 0,
      files = [1 \<mapsto> \<lparr>data = example_pak, pos = 76\<rparr>], next_addr = 2, sink = []\<rparr>"
proof -
  let ?s0 = "new_filesystem 0"
  let ?s1 = "?s0\<lparr>m_SearchPaths := [base_sp]\<rparr>"
  let ?s2 = "?s0\<lparr>m_SearchPaths := [base_sp, pak_sp], files := [1 \<mapsto> \<lparr>data = example_pak, pos = 76\<rparr>], next_addr := 2\<rparr>"
  let ?s3 = "?s0\<lparr>m_SearchPaths := [base_sp, pak_sp, save_sp], files := [1 \<mapsto> \<lparr>data = example_pak, pos = 76\<rparr>], next_addr := 2\<rparr>"
  have a1: "AddSearchPath example_build ?s0 (Some ''/base'') None True = (True, ?s1)"
    by (subst example_AddSearchPath) (simp_all add: FindSearchPath_def new_filesystem_def base_sp_def)
  have a2: "AddPackFile example_build example_formats example_disk ?s1 (Some ''/pak0.pak'') None = (True, ?s2)"
    by (subst example_AddPackFile [OF _ example_pak_on_disk(1)])
       (simp_all add: new_filesystem_def pak_sp_def le32_offsets example_pak_def)
  have a3: "AddSearchPath example_build ?s2 (Some ''/save'') None False = (True, ?s3)"
    by (subst example_AddSearchPath)
       (simp_all add: FindSearchPath_def search_path_matches_def stricmp_neq new_filesystem_def
          base_sp_def pak_sp_def save_sp_def)
  have "example_mounted = ?s3"
    unfolding example_mounted_def mounts_def
    by (simp only: foldl.simps mount_step.simps a1 a2 a3 snd_conv)
  then show ?thesis by (simp add: new_filesystem_def)
qed

subsection \<open>Close\<close>

lemma find_opened_None: "find_opened tbl a = None \<longleftrightarrow> a \<notin> fst ` set tbl"
  by (induction tbl) (auto split: if_splits)

lemma find_opened_Some:
  "find_opened tbl a = Some i \<Longrightarrow> i < length tbl \<and> fst (tbl ! i) = a"
  by (induction tbl arbitrary: i) (auto split: if_splits)

text \<open>C10. \<open>Close\<close> on a non-null handle value that no element of the open-handle table
  owns returns the state as it was: the table, every stream and the warning sink are the
  same.\<close>

theorem Close_unknown_handle:
  assumes "file \<noteq> FILESYSTEM_INVALID_HANDLE"
      and "file \<notin> fst ` set (m_OpenedFiles st)"
  shows "Close st file = st"
  using assms by (simp add: Close_def find_opened_None [THEN iffD2])

theorem Close_unknown_handle_witness:
  "(3::nat) \<noteq> FILESYSTEM_INVALID_HANDLE \<and>
   3 \<notin> fst ` set (m_OpenedFiles (Close example_reading 3)) \<and>
   Close (Close example_reading 3) 3 = Close example_reading 3"
proof -
  have a: "(3::nat) \<noteq> FILESYSTEM_INVALID_HANDLE"
    by (simp add: FILESYSTEM_INVALID_HANDLE_def)
  have "m_OpenedFiles (Close example_reading 3) = []"
    by (simp add: Close_def example_reading_def FILESYSTEM_INVALID_HANDLE_def Warning_def erase_at_def)
  then have b: "3 \<notin> fst ` set (m_OpenedFiles (Close example_reading 3))"
    by simp
  from Close_unknown_handle [OF a b] a b show ?thesis by simp
qed

subsection \<open>AddSearchPath\<close>

theorem AddSearchPath_empty_path_counterexample:
  "fst (AddSearchPath example_build (new_filesystem 0) (Some '''') None False) \<and>
   length (m_SearchPaths (new_filesystem 0)) = 0 \<and>
   length (m_SearchPaths (snd (AddSearchPath example_build (new_filesystem 0) (Some '''') None False))) = 1"
  by (simp add: AddSearchPath_def FindSearchPath_def new_filesystem_def)

text \<open>C3, as the code has it. \<open>AddSearchPath\<close> with a null path returns false and leaves
  the state as it was, and so does every call that returns false. The empty string is a
  path like any other: the call with it succeeds exactly when no search path with the
  empty location and the same scope tag is there yet, and then it appends to the registry,
  behind everything that is there, a search path with the empty location, the given scope
  tag and read-only flag, and no archive, and changes nothing else.\<close>

theorem AddSearchPath_null_path:
  "AddSearchPath b st None pathID bReadOnly = (False, st) \<and>
   (\<not> fst (AddSearchPath b st pPath pathID bReadOnly) \<longrightarrow>
      snd (AddSearchPath b st pPath pathID bReadOnly) = st) \<and>
   (fst (AddSearchPath b st (Some '''') pathID bReadOnly) \<longleftrightarrow> FindSearchPath st '''' True pathID = None) \<and>
   (fst (AddSearchPath b st (Some '''') pathID bReadOnly) \<longrightarrow>
      snd (AddSearchPath b st (Some '''') pathID bReadOnly) =
        st\<lparr>m_SearchPaths := m_SearchPaths st @
              [\<lparr>szPath = '''', pszPathID = pathID,
                flags = (if bReadOnly then {READ_ONLY} else {}),
                packFile = None, packEntries = Map.empty\<rparr>]\<rparr>)"
  by (cases "target b")
     (simp_all add: AddSearchPath_def Let_def make_preferred_def strncpy_terminated_def
        split: option.splits)

theorem AddSearchPath_null_path_witness:
  "\<not> fst (AddSearchPath example_build example_mounted (Some ''/SAVE'') None True) \<and>
   snd (AddSearchPath example_build example_mounted (Some ''/SAVE'') None True) = example_mounted \<and>
   fst (AddSearchPath example_build example_mounted (Some '''') None False) \<and>
   m_SearchPaths (snd (AddSearchPath example_build example_mounted (Some '''') None False)) =
     [base_sp, pak_sp, save_sp,
      \<lparr>szPath = '''', pszPathID = None, flags = {}, packFile = None, packEntries = Map.empty\<rparr>]"
proof -
  have "stricmp_eq ''/SAVE'' ''/save''"
    by (simp add: stricmp_eq_def tolower_def char_of_def bit_0)
  then have "FindSearchPath example_mounted ''/SAVE'' True None \<noteq> None"
    by (simp add: FindSearchPath_def example_mounted_eq search_path_matches_def save_sp_def)
  then have f: "\<not> fst (AddSearchPath example_build example_mounted (Some ''/SAVE'') None True)"
    by (simp add: AddSearchPath_def)
  have "FindSearchPath example_mounted '''' True None = None"
    by (simp add: FindSearchPath_def example_mounted_eq search_path_matches_def stricmp_eq_def
        base_sp_def pak_sp_def save_sp_def)
  with AddSearchPath_null_path [of example_build example_mounted None False]
  have s: "fst (AddSearchPath example_build example_mounted (Some '''') None False)"
    by blast
  with AddSearchPath_null_path [of example_build example_mounted None False]
  have "snd (AddSearchPath example_build example_mounted (Some '''') None False) =
        example_mounted\<lparr>m_SearchPaths := m_SearchPaths example_mounted @
              [\<lparr>szPath = '''', pszPathID = None, flags = (if False then {READ_ONLY} else {}),
                packFile = None, packEntries = Map.empty\<rparr>]\<rparr>"
    by blast
  then have r: "m_SearchPaths (snd (AddSearchPath example_build example_mounted (Some '''') None False)) =
     [base_sp, pak_sp, save_sp,
      \<lparr>szPath = '''', pszPathID = None, flags = {}, packFile = None, packEntries = Map.empty\<rparr>]"
    by (simp add: example_mounted_eq)
  from AddSearchPath_null_path [of example_build example_mounted None True "Some ''/SAVE''"] f
  have "snd (AddSearchPath example_build example_mounted (Some ''/SAVE'') None True) = example_mounted"
    by blast
  with f s r show ?thesis by (intro conjI)
qed

subsection \<open>The entries of a pack archive\<close>

theorem insert_entries_last_wins_counterexample:
  "map_option (\<lambda>e. (entryStart e, entryLength e))
     (insert_entries Posix [(''a.txt'', 10, 20), (''a.txt'', 30, 40)] Map.empty ''a.txt'') = Some (10, 20)
   \<and> (10 :: 64 word, 20 :: 64 word) \<noteq> (30, 40)"
  by (simp add: emplace_def make_preferred_def)

lemma insert_entries_lookup:
  "insert_entries pf recs entries name =
     (case entries name of
        Some e \<Rightarrow> Some e
      | None \<Rightarrow>
          (case find (\<lambda>r. make_preferred pf (fst r) = name) recs of
             None \<Rightarrow> None
           | Some (n, filepos, filelen) \<Rightarrow>
               Some \<lparr>entryName = name, entryStart = filepos, entryLength = filelen\<rparr>))"
proof (induction recs arbitrary: entries)
  case Nil
  then show ?case by (simp split: option.splits)
next
  case (Cons r recs)
  obtain n p l where r: "r = (n, p, l)" by (cases r)
  show ?case
    by (simp add: r Cons.IH emplace_def Let_def split: option.splits)
qed

text \<open>C4, as the code has it. When the directory holds several records with the same
  normalized name, \<open>emplace\<close> keeps the element that is there: the mapping built from an
  empty one holds, under each name, the offset and length of the first record in record
  order that has this name, and nothing under a name that no record has.\<close>

theorem insert_entries_first_wins:
  "insert_entries pf recs Map.empty name =
     (case find (\<lambda>r. make_preferred pf (fst r) = name) recs of
        None \<Rightarrow> None
      | Some (n, filepos, filelen) \<Rightarrow>
          Some \<lparr>entryName = name, entryStart = filepos, entryLength = filelen\<rparr>)"
  by (simp add: insert_entries_lookup)

subsection \<open>FindClose\<close>

text \<open>C5, where the code departs from it. Closing the last cursor of the table removes
  nothing: with one VALID cursor in the table, and with an invalid cursor before a VALID
  last one, \<open>FindClose\<close> on the last slot returns the table as it was, the last cursor
  still VALID.\<close>

theorem FindClose_last_cursor_stays:
  "FindClose ((new_filesystem 0)\<lparr>m_FindFiles := [new_cursor [] []]\<rparr>) 0
     = Some ((new_filesystem 0)\<lparr>m_FindFiles := [new_cursor [] []]\<rparr>) \<and>
   FindClose ((new_filesystem 0)\<lparr>m_FindFiles := [(new_cursor [] [])\<lparr>fflags := {}\<rparr>, new_cursor [] []]\<rparr>) 1
     = Some ((new_filesystem 0)\<lparr>m_FindFiles := [(new_cursor [] [])\<lparr>fflags := {}\<rparr>, new_cursor [] []]\<rparr>)"
  by (simp add: FindClose_def FindClose_loop_def new_cursor_def)

subsection \<open>Size by name\<close>

text \<open>C2, where the code departs from it. With \<open>/base\<close> registered first and
  \<open>/base/a.txt\<close> a file of 3 bytes, \<open>FileExists\<close> finds \<open>a.txt\<close> by the scan over the
  registry, but \<open>Size\<close> by name asks the disk for \<open>a.txt\<close> as it stands, which fails,
  and returns the failure value cut to 32 bits.\<close>

theorem Size_name_ignores_search_paths:
  "Size_name example_build example_disk example_mounted (Some ''a.txt'') = 4294967295 \<and>
   FileExists example_build example_disk example_mounted (Some ''a.txt'') \<and>
   fs_file_size example_disk (path_append Posix (szPath (hd (m_SearchPaths example_mounted))) ''a.txt'') = 3"
  by (simp add: Size_name_def fs_file_size_def example_disk_def FileExists_def example_mounted_eq
      example_build_def base_sp_def path_append_def is_separator_def preferred_separator_def fs_exists_def)

subsection \<open>The registry after mount operations\<close>

text \<open>C6, where the code departs from it. \<open>AddPackFile\<close> does not look for a search path
  that is already there: mounting the same archive twice under the same scope tag leaves
  two search paths with the same location and tag.\<close>

theorem AddPackFile_twice_duplicates:
  "map (\<lambda>sp. (szPath sp, pszPathID sp))
     (m_SearchPaths (mounts example_build example_formats example_disk (new_filesystem 0)
        [AddArchive (Some ''/pak0.pak'') None, AddArchive (Some ''/pak0.pak'') None]))
   = [(''/pak0.pak'', None), (''/pak0.pak'', None)]"
  by (simp add: mounts_def example_AddPackFile [OF _ example_pak_on_disk(1)] new_filesystem_def)

subsection \<open>Write intent\<close>

lemma Warning_m_SearchPaths [simp]: "m_SearchPaths (Warning st level msg) = m_SearchPaths st"
  by (simp add: Warning_def)

lemma ProcessPackFile_m_SearchPaths:
  "m_SearchPaths (fst (snd (ProcessPackFile pf pt st nm f es))) = m_SearchPaths st"
  by (simp add: ProcessPackFile_def Let_def split: prod.splits)

lemma AddPackFile_m_SearchPaths:
  "m_SearchPaths (snd (AddPackFile b fmts d st fullpath pathID)) = m_SearchPaths st \<or>
   (\<exists>sp. flags sp = {READ_ONLY, IS_PACK_FILE} \<and>
         m_SearchPaths (snd (AddPackFile b fmts d st fullpath pathID)) = m_SearchPaths st @ [sp])"
proof (cases fullpath)
  case None
  then show ?thesis by (simp add: AddPackFile_def)
next
  case (Some p)
  show ?thesis
  proof (cases "fopen d p ''rb''")
    case None
    with Some show ?thesis by (simp add: AddPackFile_def)
  next
    case (Some fl0)
    obtain header f1 where fr: "fread fl0 (sizeof_pack_Header fmts) = (header, f1)"
      by (cases "fread fl0 (sizeof_pack_Header fmts)")
    show ?thesis
    proof (cases "IdentifyPackType fmts header")
      case None
      with \<open>fullpath = Some p\<close> Some fr show ?thesis by (simp add: AddPackFile_def)
    next
      case (Some pt)
      obtain ok st1 f2 es where pp:
        "ProcessPackFile (target b) pt st p (rewind f1) Map.empty = (ok, st1, f2, es)"
        by (cases "ProcessPackFile (target b) pt st p (rewind f1) Map.empty") auto
      from ProcessPackFile_m_SearchPaths [of "target b" pt st p "rewind f1" Map.empty] pp
      have st1: "m_SearchPaths st1 = m_SearchPaths st" by simp
      from \<open>fullpath = Some p\<close> \<open>fopen d p ''rb'' = Some fl0\<close> fr Some pp st1
      show ?thesis by (simp add: AddPackFile_def)
    qed
  qed
qed

lemma set_erase_at: "set (erase_at xs i) \<subseteq> set xs"
  unfolding erase_at_def by (auto dest: in_set_takeD in_set_dropD)

lemma aro_mount_step:
  assumes "archives_read_only (m_SearchPaths st)"
  shows "archives_read_only (m_SearchPaths (mount_step b fmts d st op))"
proof (cases op)
  case (AddDirectory pPath pathID ro)
  with assms show ?thesis
    by (auto simp: AddSearchPath_def archives_read_only_def Let_def split: option.splits if_splits)
next
  case (AddArchive fullpath pathID)
  with assms AddPackFile_m_SearchPaths [of b fmts d st fullpath pathID] show ?thesis
    by (auto simp: archives_read_only_def)
next
  case (Remove pPath)
  with assms set_erase_at [of "m_SearchPaths st"] show ?thesis
    by (auto simp: RemoveSearchPath_def archives_read_only_def split: option.splits)
next
  case RemoveAll
  then show ?thesis by (simp add: RemoveAllSearchPaths_def archives_read_only_def)
qed

lemma aro_mounts:
  "archives_read_only (m_SearchPaths st) \<Longrightarrow> archives_read_only (m_SearchPaths (mounts b fmts d st ops))"
  unfolding mounts_def by (induction ops arbitrary: st) (simp_all add: aro_mount_step)

lemma Open_scan_selects:
  "Open_scan pf d sps name opts pathID = Some (sp, path, f) \<Longrightarrow> strchr opts CHR ''w'' \<Longrightarrow>
   sp \<in> set sps \<and> READ_ONLY \<notin> flags sp"
  by (induction sps) (auto simp: Let_def split: if_splits option.splits)

text \<open>C8. Whatever sequence of mount operations built the registry, a write-intent
  open (an options string with a \<open>w\<close>) never stops at a search path that is flagged
  READ_ONLY or is archive-backed: the scan of \<open>Open\<close> skips them, for every file name and
  scope tag, and \<open>OpenFromCacheForRead\<close> returns the invalid handle after one warning,
  with nothing else changed.\<close>

theorem write_intent_skips_read_only:
  assumes w: "strchr opts CHR ''w''"
      and reg: "m_SearchPaths st = m_SearchPaths (mounts b fmts d (new_filesystem level) ops)"
  shows "(\<forall>sp path f. Open_scan pf d' (m_SearchPaths st) name opts pathID = Some (sp, path, f) \<longrightarrow>
            sp \<in> set (m_SearchPaths st) \<and> READ_ONLY \<notin> flags sp \<and> IS_PACK_FILE \<notin> flags sp) \<and>
         OpenFromCacheForRead b' st (Some name) (Some opts) pathID' =
           (FILESYSTEM_INVALID_HANDLE,
            Warning st FILESYSTEM_WARNING_CRITICAL
              (''CFileSystem::OpenFromCacheForRead: Tried to open file '' @ name @ '' with write option!''))"
proof -
  have "archives_read_only (m_SearchPaths (new_filesystem level))"
    by (simp add: archives_read_only_def new_filesystem_def)
  then have inv: "archives_read_only (m_SearchPaths st)"
    unfolding reg by (rule aro_mounts)
  have "sp \<in> set (m_SearchPaths st) \<and> READ_ONLY \<notin> flags sp \<and> IS_PACK_FILE \<notin> flags sp"
    if "Open_scan pf d' (m_SearchPaths st) name opts pathID = Some (sp, path, f)" for sp path f
    using Open_scan_selects [OF that w] inv by (auto simp: archives_read_only_def)
  moreover have "OpenFromCacheForRead b' st (Some name) (Some opts) pathID' =
           (FILESYSTEM_INVALID_HANDLE,
            Warning st FILESYSTEM_WARNING_CRITICAL
              (''CFileSystem::OpenFromCacheForRead: Tried to open file '' @ name @ '' with write option!''))"
    using w by (simp add: OpenFromCacheForRead_def)
  ultimately show ?thesis by blast
qed

lemma example_Open_scan_write:
  "Open_scan Posix example_disk [base_sp, pak_sp, save_sp] ''out.txt'' ''wb'' None =
     Some (save_sp, ''/save/out.txt'', \<lparr>data = [], pos = 0\<rparr>)"
  by (simp add: base_sp_def pak_sp_def save_sp_def strchr_def pathID_excludes_def path_append_def
      is_separator_def preferred_separator_def make_preferred_def fopen_def example_disk_def)

theorem write_intent_skips_read_only_witness:
  "strchr ''wb'' CHR ''w'' \<and>
   Open_scan Posix example_disk (m_SearchPaths example_mounted) ''out.txt'' ''wb'' None =
     Some (save_sp, ''/save/out.txt'', \<lparr>data = [], pos = 0\<rparr>) \<and>
   save_sp \<in> set (m_SearchPaths example_mounted) \<and>
   READ_ONLY \<notin> flags save_sp \<and> IS_PACK_FILE \<notin> flags save_sp \<and>
   fst (OpenFromCacheForRead example_build example_mounted (Some ''out.txt'') (Some ''wb'') None)
     = FILESYSTEM_INVALID_HANDLE"
proof -
  have w: "strchr ''wb'' CHR ''w''" by (simp add: strchr_def)
  have reg: "m_SearchPaths example_mounted =
     m_SearchPaths (mounts example_build example_formats example_disk (new_filesystem 0)
       [AddDirectory (Some ''/base'') None True,
        AddArchive (Some ''/pak0.pak'') None,
        AddDirectory (Some ''/save'') None False])"
    by (simp add: example_mounted_def)
  have sc: "Open_scan Posix example_disk (m_SearchPaths example_mounted) ''out.txt'' ''wb'' None =
     Some (save_sp, ''/save/out.txt'', \<lparr>data = [], pos = 0\<rparr>)"
    by (simp only: example_mounted_eq CFileSystem.simps example_Open_scan_write)
  from write_intent_skips_read_only [OF w reg, of Posix example_disk "''out.txt''" None example_build None] sc w
  show ?thesis by simp
qed

subsection \<open>Reading through an archive view\<close>

lemma example_OpenFromCacheForRead:
  "OpenFromCacheForRead example_build example_mounted (Some ''sound/a.wav'') (Some ''rb'') None
     = (2, example_viewing)"
  by (simp add: OpenFromCacheForRead_def strchr_def example_mounted_eq example_build_def
      base_sp_def pak_sp_def save_sp_def pathID_excludes_def make_preferred_def
      example_viewing_def example_view_def)

lemma example_Open:
  "Open example_build example_disk example_mounted (Some ''a.txt'') (Some ''r'') None
     = (3, example_reading)"
  by (simp add: Open_def example_mounted_eq example_build_def base_sp_def strchr_def
      pathID_excludes_def path_append_def is_separator_def preferred_separator_def
      make_preferred_def fopen_def example_disk_def example_reading_def example_plain_def)

lemma example_view_fields:
  "m_pFile example_view = Some 1" "m_bIsPackEntry example_view"
  "m_uiStartOffset example_view = 128" "m_uiLength example_view = 64"
  by (simp_all add: example_view_def)

lemma example_Seek_start:
  "Seek example_viewing 2 0 FILESYSTEM_SEEK_HEAD =
     Some (example_viewing\<lparr>files := [1 \<mapsto> \<lparr>data = example_pak, pos = 128\<rparr>]\<rparr>)"
  by (simp add: Seek_def example_viewing_def example_mounted_eq example_view_fields Seek_adjust_def
      Seek_origin_def fseek_def)

lemma drop_pak: "drop 128 example_pak = replicate 64 1 @ replicate 64 2"
  by (simp add: example_pak_def example_archive_def bytes_of_def len_rec)

lemma example_Read_pack_entry:
  "Read_pack_entry example_view \<lparr>data = example_pak, pos = 128\<rparr> 100 =
     (65, replicate 64 1 @ replicate 36 2, \<lparr>data = example_pak, pos = 228\<rparr>)"
proof -
  have fr: "fread \<lparr>data = example_pak, pos = 128\<rparr> 100 =
      (replicate 64 1 @ replicate 36 2, \<lparr>data = example_pak, pos = 228\<rparr>)"
    by (simp add: fread_def drop_pak)
  have sz: "unat (scast (100 :: 32 word) :: 64 word) = 100" by simp
  show ?thesis
    unfolding Read_pack_entry_def
    by (simp add: example_view_fields ftell_def sz fr)
qed

lemma example_Read:
  "Read (example_viewing\<lparr>files := [1 \<mapsto> \<lparr>data = example_pak, pos = 128\<rparr>]\<rparr>) 2 100 =
     Some (65, replicate 64 1 @ replicate 36 2,
           example_viewing\<lparr>files := [1 \<mapsto> \<lparr>data = example_pak, pos = 228\<rparr>]\<rparr>)"
  by (simp add: Read_def example_viewing_def example_view_fields example_Read_pack_entry)

text \<open>C1, where the code departs from it. The archive holds the 64-byte entry
  \<open>sound/a.wav\<close> at offset 128 and 64 more bytes behind it. Opening the entry from cache,
  seeking to the start of the window and reading 100 bytes returns 65, and the byte at index
  64 of the buffer is the first byte behind the window.\<close>

theorem Read_past_window_end:
  "(case OpenFromCacheForRead example_build example_mounted (Some ''sound/a.wav'') (Some ''rb'') None of
      (file, st1) \<Rightarrow>
        (case Seek st1 file 0 FILESYSTEM_SEEK_HEAD of
           None \<Rightarrow> None
         | Some st2 \<Rightarrow> map_option (\<lambda>(result, got, st3). (result, got ! 64)) (Read st2 file 100)))
   = Some (65, 2)"
  unfolding example_OpenFromCacheForRead prod.case example_Seek_start option.case example_Read
  by (simp add: nth_append)

subsection \<open>Seek and Tell\<close>

lemma sint_ucast_small:
  fixes x :: "64 word"
  assumes "uint x < 2 ^ 31"
  shows "sint (ucast x :: 32 word) = uint x"
proof -
  have "uint x < 2 ^ 32" using assms by simp
  then have u: "uint (ucast x :: 32 word) = uint x"
    by (simp add: unsigned_ucast_eq take_bit_int_eq_self)
  have "sint (ucast x :: 32 word) = signed_take_bit 31 (uint (ucast x :: 32 word))"
    by (simp add: sint_uint)
  also have "\<dots> = uint x"
  proof -
    have "- (2 ^ 31) \<le> uint x"
      using order_trans [of "- (2 ^ 31)" 0 "uint x"] by simp
    then show ?thesis unfolding u using assms by (intro signed_take_bit_int_eq_self) simp_all
  qed
  finally show ?thesis .
qed

lemma sint_add_in_range:
  fixes pos' :: "32 word" and x :: "64 word"
  assumes "uint x < 2 ^ 31" and "sint pos' + uint x < 2 ^ 31"
  shows "sint (pos' + ucast x) = sint pos' + uint x"
proof -
  have lo: "- (2 ^ 31) \<le> sint pos'"
    using sint_ge [of pos'] by simp
  have "sint (pos' + ucast x) = signed_take_bit 31 (sint pos' + sint (ucast x :: 32 word))"
    by (simp add: sint_word_ariths)
  also have "\<dots> = signed_take_bit 31 (sint pos' + uint x)"
    using sint_ucast_small [OF assms(1)] by simp
  also have "\<dots> = sint pos' + uint x"
  proof -
    have "sint pos' \<le> sint pos' + uint x" by simp
    with lo have "- (2 ^ 31) \<le> sint pos' + uint x" by (rule order_trans)
    then show ?thesis using assms by (intro signed_take_bit_int_eq_self) simp_all
  qed
  finally show ?thesis .
qed

lemma uint_add_no_wrap:
  fixes x y :: "64 word"
  assumes "uint x + uint y < 2 ^ 31"
  shows "uint (x + y) = uint x + uint y"
proof -
  have "uint x + uint y < 2 ^ 64" using assms by simp
  then show ?thesis by (simp add: uint_word_ariths take_bit_int_eq_self)
qed

lemma far_mounted_eq:
  "far_mounted =
     \<lparr>m_SearchPaths = [far_sp], m_OpenedFiles = [], m_FindFiles = [], m_WarningLevel = 0,
      files = [1 \<mapsto> \<lparr>data = far_pak, pos = 76\<rparr>], next_addr = 2, sink = []\<rparr>"
  unfolding far_mounted_def mounts_def
  by (simp add: example_AddPackFile [OF _ example_pak_on_disk(2)] le32_offsets far_sp_def
      far_pak_def new_filesystem_def)

lemma far_OpenFromCacheForRead:
  "OpenFromCacheForRead example_build far_mounted (Some ''sound/a.wav'') (Some ''rb'') None
     = (2, far_viewing)"
  by (simp add: OpenFromCacheForRead_def strchr_def far_mounted_eq example_build_def
      far_sp_def pathID_excludes_def make_preferred_def far_viewing_def far_view_def)

lemma far_view_fields:
  "m_pFile far_view = Some 1" "m_bIsPackEntry far_view"
  "m_uiStartOffset far_view = 2147483648" "m_uiLength far_view = 64"
  by (simp_all add: far_view_def)

lemma far_Seek_current:
  "Seek far_viewing 2 5 FILESYSTEM_SEEK_CURRENT =
     Some (far_viewing\<lparr>files := [1 \<mapsto> \<lparr>data = far_pak, pos = 81\<rparr>]\<rparr>)"
  by (simp add: Seek_def far_viewing_def far_mounted_eq far_view_fields Seek_adjust_def
      Seek_origin_def fseek_def)

lemma far_Seek_start:
  "Seek (far_viewing\<lparr>files := [1 \<mapsto> \<lparr>data = far_pak, pos = 81\<rparr>]\<rparr>) 2 0 FILESYSTEM_SEEK_HEAD =
     Some (far_viewing\<lparr>files := [1 \<mapsto> \<lparr>data = far_pak, pos = 81\<rparr>]\<rparr>)"
  by (simp add: Seek_def far_viewing_def far_mounted_eq far_view_fields Seek_adjust_def
      Seek_origin_def fseek_def)

lemma far_Tell:
  "Tell (far_viewing\<lparr>files := [1 \<mapsto> \<lparr>data = far_pak, pos = 81\<rparr>]\<rparr>) 2 =
     Some (2147483729, far_viewing\<lparr>files := [1 \<mapsto> \<lparr>data = far_pak, pos = 81\<rparr>]\<rparr>)"
  by (simp add: Tell_def far_viewing_def far_mounted_eq far_view_fields ftell_def)

theorem Seek_start_far_offset_counterexample:
  "(case OpenFromCacheForRead example_build far_mounted (Some ''sound/a.wav'') (Some ''rb'') None of
      (file, st1) \<Rightarrow>
        (case Seek st1 file 5 FILESYSTEM_SEEK_CURRENT of
           None \<Rightarrow> None
         | Some st2 \<Rightarrow>
             (case Seek st2 file 0 FILESYSTEM_SEEK_HEAD of
                None \<Rightarrow> None
              | Some st3 \<Rightarrow> map_option fst (Tell st3 file))))
   = Some 2147483729 \<and> (2147483729 :: 32 word) \<noteq> 0"
  unfolding far_OpenFromCacheForRead prod.case far_Seek_current far_Seek_start option.case far_Tell
  by simp

lemma Tell_after_fseek_start:
  fixes start :: "64 word"
  shows "(word_of_int (ftell (fseek f (uint start) SEEK_SET)) :: 64 word) - start = 0"
  by (simp add: fseek_def ftell_def)

text \<open>C9, as the code has it. \<open>Seek\<close> adds the offsets to \<open>pos\<close> as \<open>int\<close>s. For an open
  ARCHIVE_VIEW handle whose start offset, or window end, and seek target are below
  \<open>2^31\<close>, seeking from the start is an \<open>fseek\<close> from the start of the stream to
  \<open>startOffset + pos\<close>, and seeking from the end is one to
  \<open>startOffset + length + pos\<close>; a PLAIN handle passes \<open>pos\<close> and the origin through
  unchanged; and \<open>Tell\<close> right after \<open>Seek\<close> to 0 from the start, on an ARCHIVE_VIEW
  handle with a start offset below \<open>2^31\<close>, returns 0.\<close>

theorem Seek_Tell_window:
  assumes h: "file \<noteq> 0" "map_of (m_OpenedFiles st) file = Some pFile"
             "m_pFile pFile = Some fa" "files st fa = Some f"
  shows "(m_bIsPackEntry pFile \<and> uint (m_uiStartOffset pFile) < 2 ^ 31 \<and>
            sint pos' + uint (m_uiStartOffset pFile) < 2 ^ 31 \<longrightarrow>
          Seek st file pos' FILESYSTEM_SEEK_HEAD =
            Some (st\<lparr>files := (files st)(fa \<mapsto>
                    fseek f (uint (m_uiStartOffset pFile) + sint pos') SEEK_SET)\<rparr>)) \<and>
         (m_bIsPackEntry pFile \<and> uint (m_uiStartOffset pFile) + uint (m_uiLength pFile) < 2 ^ 31 \<and>
            sint pos' + (uint (m_uiStartOffset pFile) + uint (m_uiLength pFile)) < 2 ^ 31 \<longrightarrow>
          Seek st file pos' FILESYSTEM_SEEK_TAIL =
            Some (st\<lparr>files := (files st)(fa \<mapsto>
                    fseek f (uint (m_uiStartOffset pFile) + uint (m_uiLength pFile) + sint pos') SEEK_SET)\<rparr>)) \<and>
         (\<not> m_bIsPackEntry pFile \<longrightarrow>
          Seek st file pos' seekType =
            (case Seek_origin seekType of
               None \<Rightarrow> Some (Warning st FILESYSTEM_WARNING_CRITICAL ''CFileSystem::Seek: invalid seek type'')
             | Some origin \<Rightarrow> Some (st\<lparr>files := (files st)(fa \<mapsto> fseek f (sint pos') origin)\<rparr>))) \<and>
         (m_bIsPackEntry pFile \<and> uint (m_uiStartOffset pFile) < 2 ^ 31 \<longrightarrow>
          (\<exists>st'. Seek st file 0 FILESYSTEM_SEEK_HEAD = Some st' \<and> Tell st' file = Some (0, st')))"
proof (intro conjI impI)
  assume a: "m_bIsPackEntry pFile \<and> uint (m_uiStartOffset pFile) < 2 ^ 31 \<and>
            sint pos' + uint (m_uiStartOffset pFile) < 2 ^ 31"
  then have "sint (pos' + ucast (m_uiStartOffset pFile)) = sint pos' + uint (m_uiStartOffset pFile)"
    by (intro sint_add_in_range) simp_all
  with a h show "Seek st file pos' FILESYSTEM_SEEK_HEAD =
            Some (st\<lparr>files := (files st)(fa \<mapsto>
                    fseek f (uint (m_uiStartOffset pFile) + sint pos') SEEK_SET)\<rparr>)"
    by (simp add: Seek_def Seek_adjust_def Seek_origin_def add.commute)
next
  assume a: "m_bIsPackEntry pFile \<and> uint (m_uiStartOffset pFile) + uint (m_uiLength pFile) < 2 ^ 31 \<and>
            sint pos' + (uint (m_uiStartOffset pFile) + uint (m_uiLength pFile)) < 2 ^ 31"
  then have e: "uint (m_uiStartOffset pFile + m_uiLength pFile) =
      uint (m_uiStartOffset pFile) + uint (m_uiLength pFile)"
    by (intro uint_add_no_wrap) simp_all
  with a have "sint (pos' + ucast (m_uiStartOffset pFile + m_uiLength pFile)) =
      sint pos' + uint (m_uiStartOffset pFile + m_uiLength pFile)"
    by (intro sint_add_in_range) simp_all
  with a h e show "Seek st file pos' FILESYSTEM_SEEK_TAIL =
            Some (st\<lparr>files := (files st)(fa \<mapsto>
                    fseek f (uint (m_uiStartOffset pFile) + uint (m_uiLength pFile) + sint pos') SEEK_SET)\<rparr>)"
    by (simp add: Seek_def Seek_adjust_def Seek_origin_def add.commute)
next
  assume "\<not> m_bIsPackEntry pFile"
  with h show "Seek st file pos' seekType =
            (case Seek_origin seekType of
               None \<Rightarrow> Some (Warning st FILESYSTEM_WARNING_CRITICAL ''CFileSystem::Seek: invalid seek type'')
             | Some origin \<Rightarrow> Some (st\<lparr>files := (files st)(fa \<mapsto> fseek f (sint pos') origin)\<rparr>))"
    by (simp add: Seek_def Seek_adjust_def split: option.splits)
next
  assume a: "m_bIsPackEntry pFile \<and> uint (m_uiStartOffset pFile) < 2 ^ 31"
  let ?st' = "st\<lparr>files := (files st)(fa \<mapsto> fseek f (uint (m_uiStartOffset pFile)) SEEK_SET)\<rparr>"
  from a have "sint ((0 :: 32 word) + ucast (m_uiStartOffset pFile)) = sint (0 :: 32 word) + uint (m_uiStartOffset pFile)"
    by (intro sint_add_in_range) simp_all
  with a h have s: "Seek st file 0 FILESYSTEM_SEEK_HEAD = Some ?st'"
    by (simp add: Seek_def Seek_adjust_def Seek_origin_def)
  from a h have "Tell ?st' file = Some (0, ?st')"
    by (simp add: Tell_def Tell_after_fseek_start)
  with s show "\<exists>st'. Seek st file 0 FILESYSTEM_SEEK_HEAD = Some st' \<and> Tell st' file = Some (0, st')"
    by blast
qed

theorem Seek_Tell_window_witness:
  "Seek example_viewing 2 10 FILESYSTEM_SEEK_HEAD =
     Some (example_viewing\<lparr>files := (files example_viewing)(1 \<mapsto>
             fseek \<lparr>data = example_pak, pos = 76\<rparr> 138 SEEK_SET)\<rparr>) \<and>
   Seek example_viewing 2 (- 4) FILESYSTEM_SEEK_TAIL =
     Some (example_viewing\<lparr>files := (files example_viewing)(1 \<mapsto>
             fseek \<lparr>data = example_pak, pos = 76\<rparr> 188 SEEK_SET)\<rparr>) \<and>
   (\<exists>st'. Seek example_viewing 2 0 FILESYSTEM_SEEK_HEAD = Some st' \<and> Tell st' 2 = Some (0, st')) \<and>
   Seek example_reading 3 1 FILESYSTEM_SEEK_TAIL =
     Some (example_reading\<lparr>files := (files example_reading)(2 \<mapsto>
             fseek \<lparr>data = [104, 105, 10], pos = 0\<rparr> 1 SEEK_END)\<rparr>)"
proof -
  have v: "(2::nat) \<noteq> 0" "map_of (m_OpenedFiles example_viewing) 2 = Some example_view"
    "m_pFile example_view = Some 1" "files example_viewing 1 = Some \<lparr>data = example_pak, pos = 76\<rparr>"
    by (simp_all add: example_viewing_def example_mounted_eq example_view_fields)
  have r: "(3::nat) \<noteq> 0" "map_of (m_OpenedFiles example_reading) 3 = Some example_plain"
    "m_pFile example_plain = Some 2" "files example_reading 2 = Some \<lparr>data = [104, 105, 10], pos = 0\<rparr>"
    by (simp_all add: example_reading_def example_plain_def)
  have p: "\<not> m_bIsPackEntry example_plain" by (simp add: example_plain_def)
  from Seek_Tell_window [OF v, of 10] Seek_Tell_window [OF v, of "- 4"]
       Seek_Tell_window [OF r, of 1 FILESYSTEM_SEEK_TAIL] p
  show ?thesis
    by (simp add: example_view_fields Seek_origin_def)
qed

subsection \<open>The wildcard\<close>


lemma find_from_takeWhile:
  "i \<le> length s \<Longrightarrow>
   find_from s c i =
     (if c \<in> set (drop i s) then Some (i + length (takeWhile (\<lambda>x. x \<noteq> c) (drop i s))) else None)"
proof (induction s c i rule: find_from.induct)
  case (1 s c index)
  show ?case
  proof (cases "index \<ge> length s")
    case True
    then show ?thesis by (simp add: find_from.simps [of s c index])
  next
    case False
    then have d: "drop index s = s ! index # drop (Suc index) s"
      by (simp add: Cons_nth_drop_Suc)
    show ?thesis
    proof (cases "s ! index = c")
      case True
      with False d show ?thesis by (simp add: find_from.simps [of s c index])
    next
      case ne: False
      from False have "Suc index \<le> length s" by simp
      from "1.IH" [OF False ne this] False ne d show ?thesis
        by (simp add: find_from.simps [of s c index])
    qed
  qed
qed

lemma star_to_regex_star: "star_to_regex CHR ''*'' = ''.*''"
  by (simp add: star_to_regex_def)

lemma star_to_regex_other: "c \<noteq> CHR ''*'' \<Longrightarrow> star_to_regex c = [c]"
  by (simp add: star_to_regex_def)

lemma list_ex_upto: "list_ex P [0 ..< Suc n] \<longleftrightarrow> (\<exists>k \<le> n. P k)"
  by (auto simp: list_ex_iff less_Suc_eq_le simp del: upt_Suc)

lemma concat_star_free:
  "CHR ''*'' \<notin> set xs \<Longrightarrow> concat (map star_to_regex xs) = xs"
  by (induction xs) (auto simp: star_to_regex_def)

lemma replace_stars_from:
  "index \<le> length s \<Longrightarrow>
   replace_stars s index = take index s @ concat (map star_to_regex (drop index s))"
proof (induction s index rule: replace_stars.induct)
  case (1 s index)
  show ?case
  proof (cases "CHR ''*'' \<in> set (drop index s)")
    case False
    with "1.prems" show ?thesis
      by (simp add: replace_stars.simps [of s index] find_from_takeWhile concat_star_free)
  next
    case True
    define tw where "tw = takeWhile (\<lambda>x. x \<noteq> CHR ''*'') (drop index s)"
    define dw where "dw = dropWhile (\<lambda>x. x \<noteq> CHR ''*'') (drop index s)"
    define i where "i = index + length tw"
    from True "1.prems" have f: "find_from s CHR ''*'' index = Some i"
      by (simp add: find_from_takeWhile i_def tw_def)
    from True have ne: "dw \<noteq> []"
      by (auto simp: dw_def dropWhile_eq_Nil_conv)
    then have "hd dw = CHR ''*''"
      unfolding dw_def using hd_dropWhile [of "\<lambda>x. x \<noteq> CHR ''*''" "drop index s"] by simp
    with ne obtain rest where dw: "dw = CHR ''*'' # rest"
      by (cases dw) auto
    have split: "drop index s = tw @ CHR ''*'' # rest"
      using takeWhile_dropWhile_id [of "\<lambda>x. x \<noteq> CHR ''*''" "drop index s"]
      unfolding tw_def [symmetric] dw_def [symmetric] dw by simp
    have s: "s = take index s @ tw @ CHR ''*'' # rest"
      using append_take_drop_id [of index s] unfolding split by simp
    have tw_free: "CHR ''*'' \<notin> set tw"
      unfolding tw_def by (auto dest: set_takeWhileD)
    define pre where "pre = take index s"
    have len: "length pre = index" using "1.prems" by (simp add: pre_def)
    have s': "s = pre @ tw @ CHR ''*'' # rest"
      using s by (simp add: pre_def)
    have ti: "take i s = pre @ tw"
      unfolding s' by (simp add: i_def len)
    have di: "drop (Suc i) s = rest"
      unfolding s' by (simp add: i_def len)
    let ?s' = "pre @ tw @ ''.*'' @ rest"
    have le: "i + 2 \<le> length ?s'"
      by (simp add: len i_def)
    have "replace_stars s index = replace_stars ?s' (i + 2)"
      by (simp add: replace_stars.simps [of s index] f ti di)
    also have "\<dots> = take (i + 2) ?s' @ concat (map star_to_regex (drop (i + 2) ?s'))"
      using "1.IH" [OF f] le by (simp add: ti di)
    also have "take (i + 2) ?s' = pre @ tw @ ''.*''"
      by (simp add: len i_def)
    also have "drop (i + 2) ?s' = rest"
      by (simp add: len i_def)
    finally show ?thesis
      by (simp add: split concat_star_free tw_free star_to_regex_star pre_def)
  qed
qed

lemma replace_stars_concat: "replace_stars s 0 = concat (map star_to_regex s)"
  using replace_stars_from [of 0 s] by simp


lemma concat_not_star: "concat (map star_to_regex p) \<noteq> CHR ''*'' # rest"
  by (cases p) (auto simp: star_to_regex_def)

lemma not_syntax_dot: "\<not> syntax_char CHR ''.''"
  by (simp add: syntax_char_def)

lemma compile_items_plain:
  "\<forall>c \<in> set p. \<not> syntax_char c \<Longrightarrow>
   compile_items (concat (map star_to_regex p)) = Some (map item_of p)"
proof (induction p)
  case Nil
  then show ?case by simp
next
  case (Cons c p)
  then have ih: "compile_items (concat (map star_to_regex p)) = Some (map item_of p)"
    and c: "\<not> syntax_char c" by simp_all
  show ?case
  proof (cases "c = CHR ''*''")
    case True
    then show ?thesis
      by (simp add: star_to_regex_star item_of_def atom_of_def ih not_syntax_dot)
  next
    case False
    show ?thesis
    proof (cases "concat (map star_to_regex p)")
      case Nil
      with False c ih show ?thesis
        by (simp add: star_to_regex_other item_of_def)
    next
      case (Cons c' rest)
      with concat_not_star [of p rest] have "c' \<noteq> CHR ''*''" by auto
      with False c ih Cons show ?thesis
        by (simp add: star_to_regex_other item_of_def)
    qed
  qed
qed

lemma regex_compile_plain:
  assumes "\<forall>c \<in> set p. \<not> syntax_char c"
  shows "regex_compile throws (concat (map star_to_regex p)) = Compiled (map item_of p)"
proof -
  have "\<not> quantifier_char (hd (concat (map star_to_regex p)))" if "p \<noteq> []"
  proof (cases p)
    case Nil
    with that show ?thesis by simp
  next
    case (Cons c p')
    with assms have "\<not> syntax_char c" by simp
    then show ?thesis
      unfolding Cons by (auto simp: star_to_regex_def quantifier_char_def syntax_char_def)
  qed
  then show ?thesis
    by (cases "p = []") (auto simp: regex_compile_def compile_items_plain [OF assms])
qed

lemma regex_match_Star:
  "regex_match (Star a # r) s \<longleftrightarrow>
     (\<exists>k \<le> length s. (\<forall>x \<in> set (take k s). atom_matches a x) \<and> regex_match r (drop k s))"
proof (induction s)
  case Nil
  then show ?case by simp
next
  case (Cons c cs)
  show ?case
  proof
    assume "regex_match (Star a # r) (c # cs)"
    then consider "regex_match r (c # cs)" | "atom_matches a c" "regex_match (Star a # r) cs"
      by auto
    then show "\<exists>k \<le> length (c # cs). (\<forall>x \<in> set (take k (c # cs)). atom_matches a x) \<and>
        regex_match r (drop k (c # cs))"
    proof cases
      case 1
      then show ?thesis by (intro exI [of _ 0]) simp
    next
      case 2
      with Cons.IH obtain k where "k \<le> length cs" "\<forall>x \<in> set (take k cs). atom_matches a x"
        "regex_match r (drop k cs)" by blast
      with 2 show ?thesis by (intro exI [of _ "Suc k"]) simp
    qed
  next
    assume "\<exists>k \<le> length (c # cs). (\<forall>x \<in> set (take k (c # cs)). atom_matches a x) \<and>
        regex_match r (drop k (c # cs))"
    then obtain k where k: "k \<le> length (c # cs)" "\<forall>x \<in> set (take k (c # cs)). atom_matches a x"
      "regex_match r (drop k (c # cs))" by blast
    show "regex_match (Star a # r) (c # cs)"
    proof (cases k)
      case 0
      with k show ?thesis by simp
    next
      case (Suc k')
      with k have "k' \<le> length cs" "\<forall>x \<in> set (take k' cs). atom_matches a x"
        "regex_match r (drop k' cs)" "atom_matches a c" by simp_all
      with Cons.IH show ?thesis by auto
    qed
  qed
qed

lemma regex_match_wildcard_spec:
  "regex_match (map item_of p) name \<longleftrightarrow> wildcard_spec p name"
proof (induction p arbitrary: name)
  case Nil
  then show ?case by simp
next
  case (Cons c p)
  show ?case
  proof (cases "c = CHR ''*''")
    case True
    have "regex_match (map item_of (c # p)) name \<longleftrightarrow>
        (\<exists>k \<le> length name. (\<forall>x \<in> set (take k name). \<not> line_terminator x) \<and>
           regex_match (map item_of p) (drop k name))"
    proof -
      from True have "item_of c = Star AnyChar" by (simp add: item_of_def)
      then show ?thesis by (simp add: regex_match_Star)
    qed
    also have "\<dots> \<longleftrightarrow> wildcard_spec (c # p) name"
      using True by (simp add: Cons.IH list_ex_upto list_all_iff del: upt_Suc)
    finally show ?thesis .
  next
    case False
    then have "item_of c = Once (atom_of c)" by (simp add: item_of_def)
    with False show ?thesis
      by (cases name) (auto simp: atom_of_def Cons.IH)
  qed
qed

lemma make_preferred_replace_stars:
  "make_preferred pf (concat (map star_to_regex p)) = concat (map star_to_regex (make_preferred pf p))"
  by (cases pf) (auto simp: make_preferred_def star_to_regex_def map_concat comp_def
        intro!: arg_cong [where f = concat])

lemma make_preferred_no_slash:
  "(pf = Windows \<longrightarrow> CHR ''/'' \<notin> set p) \<Longrightarrow> make_preferred pf p = p"
  by (cases pf) (auto simp: make_preferred_def intro: map_idI)

lemma wildcard_filter_plain:
  assumes "\<forall>c \<in> set p. \<not> syntax_char c" and "target b = Windows \<longrightarrow> CHR ''/'' \<notin> set p"
  shows "wildcard_filter b p = Compiled (map item_of p)"
  by (simp add: wildcard_filter_def replace_stars_concat make_preferred_replace_stars
      make_preferred_no_slash [OF assms(2)] regex_compile_plain [OF assms(1)])

lemma txt_filter:
  "wildcard_filter b ''*.txt'' =
     Compiled [Star AnyChar, Once AnyChar, Once (Lit CHR ''t''), Once (Lit CHR ''x''), Once (Lit CHR ''t'')]"
proof -
  have "\<forall>c \<in> set ''*.txt''. \<not> syntax_char c"
    by (simp add: syntax_char_def)
  moreover have "target b = Windows \<longrightarrow> CHR ''/'' \<notin> set ''*.txt''"
    by simp
  ultimately have "wildcard_filter b ''*.txt'' = Compiled (map item_of ''*.txt'')"
    by (rule wildcard_filter_plain)
  then show ?thesis by (simp add: item_of_def atom_of_def)
qed

lemma wildcard_filter_Regex_error:
  "wildcard_filter b q = Regex_error \<longleftrightarrow>
     (let s = make_preferred (target b) (replace_stars q 0)
      in (s \<noteq> [] \<and> quantifier_char (hd s)) \<or> (compile_items s = None \<and> regex_throws b s))"
  by (auto simp: wildcard_filter_def regex_compile_def Let_def split: option.splits)

theorem wildcard_literal_counterexample:
  "wildcard_accepts example_build ''*.txt'' ''atxt'' \<and> \<not> wildcard_literal ''*.txt'' ''atxt''"
proof
  show "wildcard_accepts example_build ''*.txt'' ''atxt''"
    by (simp add: wildcard_accepts_def txt_filter line_terminator_def)
  show "\<not> wildcard_literal ''*.txt'' ''atxt''"
    by code_simp
qed

text \<open>C7, as the code has it. The loop of \<open>FindFirst\<close> turns each \<open>*\<close> into
  \<open>.*\<close> and leaves every other character as it is; the result goes to the regex
  compiler unescaped. For a wildcard without other regex syntax characters (and, where the
  preferred separator is the backslash, without a slash, which \<open>make_preferred\<close> turns
  into the escape character of the regular expression) the filter compiles, and it accepts
  a name exactly when the name matches with \<open>*\<close> standing for any sequence (also the
  empty one) of characters other than line terminators, \<open>.\<close> for one such character and
  every other character for itself. So \<open>*.txt\<close> accepts \<open>a.txt\<close> and \<open>dir/b.txt\<close>
  but not \<open>a.txt.bak\<close>, on either platform. The constructor of the regular expression
  throws exactly for an expression that starts with a quantifier or that the library
  rejects for any other reason; whenever it throws, \<open>FindFirst\<close> returns no name and the
  invalid find handle after one warning, whatever the fuel.\<close>

theorem wildcard_is_unescaped_regex:
  "replace_stars p 0 = concat (map (\<lambda>c. if c = CHR ''*'' then ''.*'' else [c]) p) \<and>
   ((\<forall>c \<in> set p. \<not> syntax_char c) \<and> (target b = Windows \<longrightarrow> CHR ''/'' \<notin> set p) \<longrightarrow>
      wildcard_filter b p \<noteq> Regex_error \<and> wildcard_filter b p \<noteq> Unmodelled \<and>
      (wildcard_accepts b p name \<longleftrightarrow> wildcard_spec p name)) \<and>
   wildcard_accepts b ''*.txt'' ''a.txt'' \<and> wildcard_accepts b ''*.txt'' ''dir/b.txt'' \<and>
   \<not> wildcard_accepts b ''*.txt'' ''a.txt.bak'' \<and>
   (wildcard_filter b q = Regex_error \<longleftrightarrow>
      (let s = make_preferred (target b) (replace_stars q 0)
       in (s \<noteq> [] \<and> quantifier_char (hd s)) \<or> (compile_items s = None \<and> regex_throws b s))) \<and>
   (wildcard_filter b q = Regex_error \<longrightarrow>
      FindFirst b fuel d st (Some q) (Some h0) pathID =
        Returns (None, Some FILESYSTEM_INVALID_FIND_HANDLE,
                 Warning st FILESYSTEM_WARNING_CRITICAL ''CFileSystem::FindFirst: Invalid wildcard''))"
proof (intro conjI impI)
  show "replace_stars p 0 = concat (map (\<lambda>c. if c = CHR ''*'' then ''.*'' else [c]) p)"
    using replace_stars_concat [of p] by (simp add: star_to_regex_def [abs_def])
next
  assume plain: "(\<forall>c \<in> set p. \<not> syntax_char c) \<and> (target b = Windows \<longrightarrow> CHR ''/'' \<notin> set p)"
  then have "wildcard_filter b p = Compiled (map item_of p)"
    by (intro wildcard_filter_plain) simp_all
  then show "wildcard_filter b p \<noteq> Regex_error" "wildcard_filter b p \<noteq> Unmodelled"
    "wildcard_accepts b p name \<longleftrightarrow> wildcard_spec p name"
    by (simp_all add: wildcard_accepts_def regex_match_wildcard_spec)
next
  show "wildcard_accepts b ''*.txt'' ''a.txt''" "wildcard_accepts b ''*.txt'' ''dir/b.txt''"
    "\<not> wildcard_accepts b ''*.txt'' ''a.txt.bak''"
    by (simp_all add: wildcard_accepts_def txt_filter line_terminator_def)
next
  show "wildcard_filter b q = Regex_error \<longleftrightarrow>
      (let s = make_preferred (target b) (replace_stars q 0)
       in (s \<noteq> [] \<and> quantifier_char (hd s)) \<or> (compile_items s = None \<and> regex_throws b s))"
    by (rule wildcard_filter_Regex_error)
next
  assume "wildcard_filter b q = Regex_error"
  then show "FindFirst b fuel d st (Some q) (Some h0) pathID =
        Returns (None, Some FILESYSTEM_INVALID_FIND_HANDLE,
                 Warning st FILESYSTEM_WARNING_CRITICAL ''CFileSystem::FindFirst: Invalid wildcard'')"
    by (simp add: FindFirst_def)
qed

theorem wildcard_is_unescaped_regex_witness:
  "list_all (\<lambda>c. \<not> syntax_char c) ''*.txt'' \<and> target example_build \<noteq> Windows \<and>
   wildcard_spec ''*.txt'' ''dir/b.txt'' \<and>
   wildcard_filter example_build ''?.txt'' = Regex_error \<and>
   FindFirst example_build 0 example_disk example_mounted (Some ''?.txt'') (Some 0) None =
     Returns (None, Some FILESYSTEM_INVALID_FIND_HANDLE,
              Warning example_mounted FILESYSTEM_WARNING_CRITICAL ''CFileSystem::FindFirst: Invalid wildcard'') \<and>
   wildcard_filter example_build ''a(b'' = Regex_error \<and>
   FindFirst example_build 0 example_disk example_mounted (Some ''a(b'') (Some 0) None =
     Returns (None, Some FILESYSTEM_INVALID_FIND_HANDLE,
              Warning example_mounted FILESYSTEM_WARNING_CRITICAL ''CFileSystem::FindFirst: Invalid wildcard'')"
proof -
  have a: "(\<forall>c \<in> set ''*.txt''. \<not> syntax_char c) \<and>
      (target example_build = Windows \<longrightarrow> CHR ''/'' \<notin> set ''*.txt'')"
    by (simp add: syntax_char_def)
  have p: "target example_build \<noteq> Windows"
    by (simp add: example_build_def)
  note t = wildcard_is_unescaped_regex
         [of "''*.txt''" example_build "''dir/b.txt''" "''?.txt''" 0 example_disk example_mounted 0 None]
  note u = wildcard_is_unescaped_regex
         [of "''*.txt''" example_build "''dir/b.txt''" "''a(b''" 0 example_disk example_mounted 0 None]
  have q1: "(let s = make_preferred (target example_build) (replace_stars ''?.txt'' 0)
       in (s \<noteq> [] \<and> quantifier_char (hd s)) \<or> (compile_items s = None \<and> regex_throws example_build s))"
    by (simp add: replace_stars_concat star_to_regex_def quantifier_char_def make_preferred_def
        example_build_def)
  have q2: "(let s = make_preferred (target example_build) (replace_stars ''a(b'' 0)
       in (s \<noteq> [] \<and> quantifier_char (hd s)) \<or> (compile_items s = None \<and> regex_throws example_build s))"
    by (simp add: replace_stars_concat star_to_regex_def quantifier_char_def make_preferred_def
        example_build_def syntax_char_def unclosed_group_def)
  from t q1 have b1: "wildcard_filter example_build ''?.txt'' = Regex_error" by blast
  from u q2 have b2: "wildcard_filter example_build ''a(b'' = Regex_error" by blast
  from t a have "wildcard_accepts example_build ''*.txt'' ''dir/b.txt'' \<longleftrightarrow>
      wildcard_spec ''*.txt'' ''dir/b.txt''" by blast
  moreover from t have "wildcard_accepts example_build ''*.txt'' ''dir/b.txt''" by blast
  ultimately have c: "wildcard_spec ''*.txt'' ''dir/b.txt''" by blast
  from t b1 have f1: "FindFirst example_build 0 example_disk example_mounted (Some ''?.txt'') (Some 0) None =
     Returns (None, Some FILESYSTEM_INVALID_FIND_HANDLE,
              Warning example_mounted FILESYSTEM_WARNING_CRITICAL ''CFileSystem::FindFirst: Invalid wildcard'')"
    by blast
  from u b2 have f2: "FindFirst example_build 0 example_disk example_mounted (Some ''a(b'') (Some 0) None =
     Returns (None, Some FILESYSTEM_INVALID_FIND_HANDLE,
              Warning example_mounted FILESYSTEM_WARNING_CRITICAL ''CFileSystem::FindFirst: Invalid wildcard'')"
    by blast
  from a have a': "list_all (\<lambda>c. \<not> syntax_char c) ''*.txt''"
    unfolding list_all_iff by (rule conjunct1)
  from a' p c b1 f1 b2 f2 show ?thesis by (intro conjI)
qed

end
